theory Spec2Isabelle
  imports Complex_Main "HOL-Library.Word" "HOL-Library.Sublist"
begin

section \<open>The b0map reconstruction callback (recipes/b0map/b0map.py)\<close>

text \<open>
  The module defines \<open>process\<close>, \<open>process_image\<close> and \<open>create_example_roi\<close>. It runs
  on top of the MRD SDK (\<open>ismrmrd\<close>), the server helpers (\<open>mrdhelper\<close>, \<open>constants\<close>),
  NumPy and nibabel. Those libraries are not part of the module: their data is modelled
  by the types below, their element-wise numeric functions are parameters, and the
  exceptions they raise on the inputs the module hands them are values of \<open>error\<close>.
  Calls to \<open>logging\<close> only format text and are left out.
\<close>

subsection \<open>Exceptions\<close>

datatype error =
    NameError string
  | ValueError
  | TypeError
  | AttributeError
  | IndexError
  | ZeroDivisionError
  | FileNotFoundError
  | IsADirectoryError
  | NotADirectoryError
  | DecodeError

definition and_then :: "error + 'a \<Rightarrow> ('a \<Rightarrow> error + 'b) \<Rightarrow> error + 'b" where
  "and_then r f = (case r of Inl e \<Rightarrow> Inl e | Inr x \<Rightarrow> f x)"

text \<open>A \<open>for\<close> loop that builds one result per element and stops at the first exception.\<close>

primrec traverse :: "('a \<Rightarrow> error + 'b) \<Rightarrow> 'a list \<Rightarrow> error + 'b list" where
  "traverse f [] = Inr []"
| "traverse f (x # xs) =
     and_then (f x) (\<lambda>y. and_then (traverse f xs) (\<lambda>ys. Inr (y # ys)))"

text \<open>Python's \<open>xs[i]\<close> for a non-negative index.\<close>

definition getitem :: "'a list \<Rightarrow> nat \<Rightarrow> error + 'a" where
  "getitem xs i = (if i < length xs then Inr (xs ! i) else Inl IndexError)"

subsection \<open>NumPy arrays\<close>

text \<open>
  An array is its dtype, its shape and its elements in C order (last axis fastest).
  The scalars \<open>'px\<close> are the numbers the arrays hold; what a conversion and a rounding
  do to one number are the parameters \<open>astype_scalar\<close> and \<open>around_scalar\<close>.
\<close>

datatype np_dtype = uint16 | int16 | uint32 | int32 | int64 | float32 | float64
  | complex64 | complex128

record 'px ndarray =
  dtype :: np_dtype
  shape :: "nat list"
  elems :: "'px list"

record 'px numpy =
  astype_scalar :: "np_dtype \<Rightarrow> 'px \<Rightarrow> 'px"
  around_scalar :: "'px \<Rightarrow> 'px"

text \<open>All index tuples of a shape, in C order, and the position of one in the buffer.\<close>

fun indices :: "nat list \<Rightarrow> nat list list" where
  "indices [] = [[]]"
| "indices (n # ns) = concat (map (\<lambda>i. map ((#) i) (indices ns)) [0..<n])"

fun offset :: "nat list \<Rightarrow> nat list \<Rightarrow> nat" where
  "offset (n # ns) (i # is) = i * prod_list ns + offset ns is"
| "offset _ _ = 0"

definition item :: "'px ndarray \<Rightarrow> nat list \<Rightarrow> 'px" where
  "item a idx = elems a ! offset (shape a) idx"

definition array_of :: "np_dtype \<Rightarrow> nat list \<Rightarrow> (nat list \<Rightarrow> 'px) \<Rightarrow> 'px ndarray" where
  "array_of dt sh f = \<lparr>dtype = dt, shape = sh, elems = map f (indices sh)\<rparr>"

definition in_bounds :: "nat list \<Rightarrow> nat list \<Rightarrow> bool" where
  "in_bounds sh idx = list_all2 (<) idx sh"

text \<open>The invariant of every NumPy array: the buffer holds one element per index tuple.\<close>

definition well_formed :: "'px ndarray \<Rightarrow> bool" where
  "well_formed a = (length (elems a) = prod_list (shape a))"

text \<open>
  \<open>a.transpose(axes)\<close>: axis \<open>k\<close> of the result is axis \<open>axes[k]\<close> of \<open>a\<close>, so the
  result at \<open>idx\<close> is \<open>a\<close> at the tuple whose component \<open>axes[k]\<close> is \<open>idx[k]\<close>.
  NumPy raises ValueError unless \<open>axes\<close> is a permutation of the axes of \<open>a\<close>.
\<close>

fun index_of :: "nat list \<Rightarrow> nat \<Rightarrow> nat" where
  "index_of [] j = 0"
| "index_of (a # as) j = (if a = j then 0 else Suc (index_of as j))"

definition source_index :: "nat list \<Rightarrow> nat list \<Rightarrow> nat list" where
  "source_index axes idx = map (\<lambda>j. idx ! index_of axes j) [0..<length axes]"

definition transpose_nd :: "nat list \<Rightarrow> 'px ndarray \<Rightarrow> error + 'px ndarray" where
  "transpose_nd axes a =
     (if sort axes \<noteq> [0..<length (shape a)] then Inl ValueError
      else Inr (array_of (dtype a) (map (\<lambda>k. shape a ! k) axes)
                  (\<lambda>idx. item a (source_index axes idx))))"

text \<open>
  NumPy's type promotion on the dtypes that occur here: the smallest dtype that holds
  every value of both. Promotion changes no value.
\<close>

datatype np_kind = Unsigned | Signed | Floating | Complex

fun kind_of :: "np_dtype \<Rightarrow> np_kind" where
  "kind_of uint16 = Unsigned" | "kind_of uint32 = Unsigned"
| "kind_of int16 = Signed" | "kind_of int32 = Signed" | "kind_of int64 = Signed"
| "kind_of float32 = Floating" | "kind_of float64 = Floating"
| "kind_of complex64 = Complex" | "kind_of complex128 = Complex"

fun int_bits :: "np_dtype \<Rightarrow> nat" where
  "int_bits uint16 = 16" | "int_bits int16 = 16"
| "int_bits uint32 = 32" | "int_bits int32 = 32"
| "int_bits dt = 64"

fun float_bits :: "np_dtype \<Rightarrow> nat" where
  "float_bits uint16 = 32" | "float_bits int16 = 32" | "float_bits float32 = 32"
| "float_bits complex64 = 32"
| "float_bits dt = 64"

definition signed_of_bits :: "nat \<Rightarrow> np_dtype" where
  "signed_of_bits b = (if b \<le> 16 then int16 else if b \<le> 32 then int32 else int64)"

definition promote_types :: "np_dtype \<Rightarrow> np_dtype \<Rightarrow> np_dtype" where
  "promote_types a b =
     (if a = b then a
      else if kind_of a = Complex \<or> kind_of b = Complex then
        (if max (float_bits a) (float_bits b) = 32 then complex64 else complex128)
      else if kind_of a = Floating \<or> kind_of b = Floating then
        (if max (float_bits a) (float_bits b) = 32 then float32 else float64)
      else if kind_of a = Unsigned \<and> kind_of b = Unsigned then
        (if max (int_bits a) (int_bits b) = 16 then uint16 else uint32)
      else if kind_of a = Signed \<and> kind_of b = Signed then
        signed_of_bits (max (int_bits a) (int_bits b))
      else if kind_of a = Unsigned then
        signed_of_bits (max (2 * int_bits a) (int_bits b))
      else signed_of_bits (max (int_bits a) (2 * int_bits b)))"

text \<open>
  \<open>np.stack(arrays)\<close>: a new first axis; the buffers follow one another. NumPy raises
  ValueError on an empty list and when two arrays differ in shape.
\<close>

definition result_type :: "np_dtype list \<Rightarrow> np_dtype" where
  "result_type dts = foldl promote_types (hd dts) (tl dts)"

definition stack :: "'px ndarray list \<Rightarrow> error + 'px ndarray" where
  "stack arrays =
     (case arrays of
        [] \<Rightarrow> Inl ValueError
      | a # rest \<Rightarrow>
          if list_all (\<lambda>b. shape b = shape a) arrays
          then Inr \<lparr>dtype = result_type (map dtype arrays),
                    shape = length arrays # shape a,
                    elems = concat (map elems arrays)\<rparr>
          else Inl ValueError)"

text \<open>\<open>a[..., i]\<close>: the sub-array at position \<open>i\<close> of the last axis.\<close>

definition index_last :: "'px ndarray \<Rightarrow> nat \<Rightarrow> error + 'px ndarray" where
  "index_last a i =
     (if shape a = [] \<or> last (shape a) \<le> i then Inl IndexError
      else Inr (array_of (dtype a) (butlast (shape a)) (\<lambda>idx. item a (idx @ [i]))))"

definition astype :: "'px numpy \<Rightarrow> np_dtype \<Rightarrow> 'px ndarray \<Rightarrow> 'px ndarray" where
  "astype np dt a = a\<lparr>dtype := dt, elems := map (astype_scalar np dt) (elems a)\<rparr>"

definition around :: "'px numpy \<Rightarrow> 'px ndarray \<Rightarrow> 'px ndarray" where
  "around np a = a\<lparr>elems := map (around_scalar np) (elems a)\<rparr>"

subsection \<open>MRD images\<close>

datatype mrd_data_type =
    DATATYPE_USHORT | DATATYPE_SHORT | DATATYPE_UINT | DATATYPE_INT
  | DATATYPE_FLOAT | DATATYPE_DOUBLE | DATATYPE_CXFLOAT | DATATYPE_CXDOUBLE

definition IMTYPE_COMPLEX :: "16 word" where
  "IMTYPE_COMPLEX = 5"

text \<open>
  The fixed image header of the MRD standard; \<open>'f\<close> are its float fields. Its last
  field is the length of the attribute string, which the SDK sets whenever the attribute
  string of an image is assigned.
\<close>

record 'f image_header =
  version :: "16 word"
  data_type :: mrd_data_type
  flags :: "64 word"
  measurement_uid :: "32 word"
  matrix_size :: "16 word \<times> 16 word \<times> 16 word"
  field_of_view :: "'f \<times> 'f \<times> 'f"
  channels :: "16 word"
  position :: "'f \<times> 'f \<times> 'f"
  read_dir :: "'f \<times> 'f \<times> 'f"
  phase_dir :: "'f \<times> 'f \<times> 'f"
  slice_dir :: "'f \<times> 'f \<times> 'f"
  patient_table_position :: "'f \<times> 'f \<times> 'f"
  average :: "16 word"
  slice :: "16 word"
  contrast :: "16 word"
  phase :: "16 word"
  repetition :: "16 word"
  set_index :: "16 word"
  acquisition_time_stamp :: "32 word"
  physiology_time_stamp :: "32 word \<times> 32 word \<times> 32 word"
  image_type :: "16 word"
  image_index :: "16 word"
  image_series_index :: "16 word"
  user_int :: "32 word list"
  user_float :: "'f list"
  attribute_string_len :: "32 word"

text \<open>
  The meta attributes of an image: \<open>ismrmrd.Meta\<close> is a dictionary, and the attribute
  string of an image is the XML text of one. The text is represented by the dictionary
  it encodes, so \<open>Meta.serialize\<close> and \<open>Meta.deserialize\<close> are the identity.
\<close>

datatype meta_value = MetaStr string | MetaInt int | MetaList "string list"

type_synonym meta = "string \<rightharpoonup> meta_value"

record ('px, 'f) image =
  head :: "'f image_header"
  attribute_string :: meta
  data :: "'px ndarray"

text \<open>
  \<open>ismrmrd.Image.from_array(array, transpose=False)\<close> takes \<open>[cha z y x]\<close>, \<open>[z y x]\<close> or
  \<open>[y x]\<close> and returns an image with a fresh header that records the array's data type
  and dimensions. \<open>getHead\<close> returns a copy of the header and \<open>setHead\<close> stores one.
  \<open>setHead\<close> also fits the data to the data type and dimensions of the header it is
  given; every image the SDK builds has the data type and dimensions its header says,
  so on the headers stored here (those of the inputs, with the data type of the new
  data) the data stays as it is.
\<close>

fun get_data_type :: "np_dtype \<Rightarrow> mrd_data_type option" where
  "get_data_type uint16 = Some DATATYPE_USHORT"
| "get_data_type int16 = Some DATATYPE_SHORT"
| "get_data_type uint32 = Some DATATYPE_UINT"
| "get_data_type int32 = Some DATATYPE_INT"
| "get_data_type float32 = Some DATATYPE_FLOAT"
| "get_data_type float64 = Some DATATYPE_DOUBLE"
| "get_data_type complex64 = Some DATATYPE_CXFLOAT"
| "get_data_type complex128 = Some DATATYPE_CXDOUBLE"
| "get_data_type int64 = None"

definition new_header :: "mrd_data_type \<Rightarrow> nat list \<Rightarrow> ('f::zero) image_header" where
  "new_header dt sh =
     \<lparr>version = 1, data_type = dt, flags = 0, measurement_uid = 0,
      matrix_size = (of_nat (sh ! 3), of_nat (sh ! 2), of_nat (sh ! 1)),
      field_of_view = (0, 0, 0), channels = of_nat (sh ! 0),
      position = (0, 0, 0), read_dir = (0, 0, 0), phase_dir = (0, 0, 0),
      slice_dir = (0, 0, 0), patient_table_position = (0, 0, 0),
      average = 0, slice = 0, contrast = 0, phase = 0, repetition = 0, set_index = 0,
      acquisition_time_stamp = 0, physiology_time_stamp = (0, 0, 0),
      image_type = 0, image_index = 0, image_series_index = 0,
      user_int = replicate 8 0, user_float = replicate 8 0, attribute_string_len = 0\<rparr>"

definition from_array :: "'px ndarray \<Rightarrow> error + ('px, 'f::zero) image" where
  "from_array a =
     (case get_data_type (dtype a) of
        None \<Rightarrow> Inl TypeError
      | Some dt \<Rightarrow>
          if length (shape a) < 2 \<or> 4 < length (shape a) then Inl TypeError
          else let sh = replicate (4 - length (shape a)) 1 @ shape a
               in Inr \<lparr>head = new_header dt sh, attribute_string = Map.empty,
                        data = a\<lparr>shape := sh\<rparr>\<rparr>)"

definition getHead :: "('px, 'f) image \<Rightarrow> 'f image_header" where
  "getHead img = head img"

definition setHead :: "('px, 'f) image \<Rightarrow> 'f image_header \<Rightarrow> ('px, 'f) image" where
  "setHead img hdr = img\<lparr>head := hdr\<rparr>"

subsection \<open>Configuration, MRD header and the helpers of the server\<close>

text \<open>
  Of the JSON configuration the module reads the boolean that
  \<open>mrdhelper.get_json_config_param(config, 'sendoriginal', default=False, type='bool')\<close>
  returns and \<open>config['parameters']['options']\<close> where both keys exist. The other
  parameters it reads are never used.
\<close>

record config =
  sendoriginal :: bool
  options :: "string option"

text \<open>
  The MRD header is the parsed XML, or a string when its conversion failed. Of the
  parsed header the module uses \<open>encodedSpace.matrixSize\<close> (x, y, z) of each encoding.
\<close>

datatype mrd_header = HeaderText string | HeaderXml "(nat \<times> nat \<times> nat) list"

text \<open>
  The functions of the libraries whose values depend on floating point or on text
  codecs: NumPy's scalar functions, \<open>base64.b64decode(v).decode('utf-8')\<close> (None when
  it raises), \<open>'{:.18f}'.format\<close>, the body of \<open>create_example_roi\<close>, which computes
  a list of strings from the image size with NumPy and \<open>mrdhelper.create_roi\<close>, and
  the length of the XML text that \<open>Meta.serialize\<close> writes for a dictionary.
\<close>

record ('px, 'f) env =
  numpy :: "'px numpy"
  b64decode_utf8 :: "meta_value \<Rightarrow> string option"
  format_18f :: "'f \<Rightarrow> string"
  create_example_roi :: "nat list \<Rightarrow> string list"
  serialized_len :: "meta \<Rightarrow> nat"

text \<open>\<open>img.attribute_string = m.serialize()\<close>: the SDK stores the text and writes its
  length into the header.\<close>

definition set_attribute_string ::
  "('px, 'f) env \<Rightarrow> ('px, 'f) image \<Rightarrow> meta \<Rightarrow> ('px, 'f) image" where
  "set_attribute_string env img m =
     img\<lparr>head := (head img)\<lparr>attribute_string_len := of_nat (serialized_len env m)\<rparr>,
         attribute_string := m\<rparr>"

subsection \<open>Files and subprocesses\<close>

text \<open>
  A path is the list of its components below the root. The world holds the existing
  directories, the files with their contents (a NIfTI file holds the array written to
  it) and the commands run as subprocesses so far.
\<close>

type_synonym path = "string list"

record 'px world =
  dirs :: "path set"
  files :: "path \<rightharpoonup> 'px ndarray"
  subprocesses :: "string list list"

definition debugFolder :: path where
  "debugFolder = [''tmp'', ''share'', ''debug'']"

definition is_dir :: "'px world \<Rightarrow> path \<Rightarrow> bool" where
  "is_dir w p = (p = [] \<or> p \<in> dirs w)"

definition path_exists :: "'px world \<Rightarrow> path \<Rightarrow> bool" where
  "path_exists w p = (is_dir w p \<or> files w p \<noteq> None)"

text \<open>\<open>os.makedirs\<close> creates the directory and its missing parents; a parent that is a
  file makes it raise.\<close>

definition makedirs :: "'px world \<Rightarrow> path \<Rightarrow> error + 'px world" where
  "makedirs w p =
     (if list_ex (\<lambda>q. files w q \<noteq> None) (prefixes p) then Inl NotADirectoryError
      else Inr (w\<lparr>dirs := dirs w \<union> set (prefixes p)\<rparr>))"

text \<open>\<open>nib.save(nib.nifti1.Nifti1Image(a, np.eye(4)), p)\<close>: nibabel refuses int64 data
  when it builds the image (line 242); the save (line 243) writes the array to the file
  \<open>p\<close>, whose directory must exist.\<close>

definition nib_save :: "'px ndarray \<Rightarrow> path \<Rightarrow> 'px world \<Rightarrow> error + 'px world" where
  "nib_save a p w =
     (if dtype a = int64 then Inl ValueError
      else if list_ex (\<lambda>q. files w q \<noteq> None) (prefixes (butlast p)) then Inl NotADirectoryError
      else if \<not> is_dir w (butlast p) then Inl FileNotFoundError
      else if is_dir w p then Inl IsADirectoryError
      else Inr (w\<lparr>files := (files w)(p \<mapsto> a)\<rparr>))"

subsection \<open>\<open>process_image\<close>\<close>

text \<open>Python's \<open>str\<close> of a non-negative integer, and of \<open>n / 2\<close> (a float).\<close>

fun str_nat :: "nat \<Rightarrow> string" where
  "str_nat n =
     (if n < 10 then [''0123456789'' ! n]
      else str_nat (n div 10) @ [''0123456789'' ! (n mod 10)])"

declare str_nat.simps [simp del]

definition str_half :: "nat \<Rightarrow> string" where
  "str_half n = str_nat (n div 2) @ (if even n then ''.0'' else ''.5'')"

text \<open>Lines 168 to 176: the images' data stacked to \<open>[img cha z y x]\<close> and reordered to
  \<open>[y x img cha z]\<close>.\<close>

definition load_data :: "('px, 'f) image list \<Rightarrow> error + 'px ndarray" where
  "load_data images =
     and_then (stack (map data images)) (\<lambda>data0. transpose_nd [3, 4, 0, 1, 2] data0)"

text \<open>Lines 185 to 186: the ICE mini header of the first image is decoded for the log.\<close>

definition decode_minihead :: "('px, 'f) env \<Rightarrow> meta \<Rightarrow> error + unit" where
  "decode_minihead env m =
     (case m ''IceMiniHead'' of
        None \<Rightarrow> Inr ()
      | Some v \<Rightarrow> (case b64decode_utf8 env v of None \<Rightarrow> Inl DecodeError | Some _ \<Rightarrow> Inr ()))"

text \<open>Lines 205 to 206: \<open>mrdHeader.sequenceParameters\<close> does not exist on a string.\<close>

definition sequence_parameters :: "mrd_header \<Rightarrow> error + unit" where
  "sequence_parameters mrdHeader =
     (case mrdHeader of HeaderText _ \<Rightarrow> Inl AttributeError | HeaderXml _ \<Rightarrow> Inr ())"

text \<open>Lines 219 to 223: the field of view divided by the matrix size of the first
  encoding, y then x then z. The quotients are never used.\<close>

definition voxel_sizes :: "mrd_header \<Rightarrow> error + unit" where
  "voxel_sizes mrdHeader =
     (case mrdHeader of
        HeaderText _ \<Rightarrow> Inl AttributeError
      | HeaderXml encoding \<Rightarrow>
          (case encoding of
             [] \<Rightarrow> Inl IndexError
           | (mx, my, mz) # _ \<Rightarrow>
               if my = 0 \<or> mx = 0 \<or> mz = 0 then Inl ZeroDivisionError else Inr ()))"

text \<open>Lines 163 to 223, everything before the file is written.\<close>

definition prepare ::
  "('px, 'f) env \<Rightarrow> mrd_header \<Rightarrow> ('px, 'f) image list \<Rightarrow> error + 'px ndarray" where
  "prepare env mrdHeader images =
     and_then (load_data images) (\<lambda>data1.
     and_then (decode_minihead env (attribute_string (hd images))) (\<lambda>_.
     and_then (sequence_parameters mrdHeader) (\<lambda>_.
     and_then (voxel_sizes mrdHeader) (\<lambda>_. Inr data1))))"

definition nifti_path :: path where
  "nifti_path = [''buildhostdirectory'', ''test.nii'']"

text \<open>Lines 301 to 319: back to \<open>[y x z cha img]\<close>, then float64, rounded, int16.\<close>

definition convert :: "('px, 'f) env \<Rightarrow> 'px ndarray \<Rightarrow> error + 'px ndarray" where
  "convert env data1 =
     and_then (transpose_nd [0, 1, 4, 3, 2] data1) (\<lambda>data2.
       Inr (astype (numpy env) int16 (around (numpy env) (astype (numpy env) float64 data2))))"

definition BitsStored :: nat where
  "BitsStored = 12"

definition maxVal :: nat where
  "maxVal = 2 ^ BitsStored - 1"

text \<open>Lines 350 to 352: the mini header of image \<open>iImg\<close> is decoded to look for the end of
  a series; the counter it increments is never read.\<close>

definition series_end :: "('px, 'f) env \<Rightarrow> meta \<Rightarrow> error + unit" where
  "series_end env m =
     (case m ''IceMiniHead'' of
        None \<Rightarrow> Inr ()
      | Some v \<Rightarrow> (case b64decode_utf8 env v of None \<Rightarrow> Inl DecodeError | Some _ \<Rightarrow> Inr ()))"

text \<open>Lines 357 to 364: the attributes every derived image is given.\<close>

definition fixed_meta :: "meta \<Rightarrow> meta" where
  "fixed_meta tmpMeta =
     tmpMeta(''DataRole'' \<mapsto> MetaStr ''Image'',
             ''ImageProcessingHistory'' \<mapsto> MetaList [''PYTHON'', ''AFIB1''],
             ''WindowCenter'' \<mapsto> MetaStr (str_half (maxVal + 1)),
             ''WindowWidth'' \<mapsto> MetaStr (str_nat (maxVal + 1)),
             ''SequenceDescriptionAdditional'' \<mapsto> MetaStr ''AFI B1+ Map'',
             ''Keep_image_geometry'' \<mapsto> MetaInt 1)"

text \<open>Lines 366 to 374: the ROI and the colour map that the configuration may ask for.\<close>

definition options_meta :: "('px, 'f) env \<Rightarrow> config \<Rightarrow> nat list \<Rightarrow> meta \<Rightarrow> meta" where
  "options_meta env cfg data_shape tmpMeta =
     (let tmpMeta = (if options cfg = Some ''roi''
                     then tmpMeta(''ROI_example'' \<mapsto> MetaList (create_example_roi env data_shape))
                     else tmpMeta)
      in if options cfg = Some ''colormap''
         then tmpMeta(''LUTFileName'' \<mapsto> MetaStr ''MicroDeltaHotMetal.pal'')
         else tmpMeta)"

text \<open>Lines 377 to 381: the image directions, where the attributes do not have them.\<close>

definition directions_meta :: "('px, 'f) env \<Rightarrow> 'f image_header \<Rightarrow> meta \<Rightarrow> meta" where
  "directions_meta env oldHeader tmpMeta =
     (let tmpMeta = (if tmpMeta ''ImageRowDir'' = None
                     then (case read_dir oldHeader of (r0, r1, r2) \<Rightarrow>
                       tmpMeta(''ImageRowDir'' \<mapsto>
                         MetaList [format_18f env r0, format_18f env r1, format_18f env r2]))
                     else tmpMeta)
      in if tmpMeta ''ImageColumnDir'' = None
         then (case phase_dir oldHeader of (p0, p1, p2) \<Rightarrow>
           tmpMeta(''ImageColumnDir'' \<mapsto>
             MetaList [format_18f env p0, format_18f env p1, format_18f env p2]))
         else tmpMeta)"

text \<open>Lines 357 to 381: the meta attributes of a derived image.\<close>

definition derived_meta ::
  "('px, 'f) env \<Rightarrow> config \<Rightarrow> nat list \<Rightarrow> 'f image_header \<Rightarrow> meta \<Rightarrow> meta" where
  "derived_meta env cfg data_shape oldHeader tmpMeta =
     directions_meta env oldHeader (options_meta env cfg data_shape (fixed_meta tmpMeta))"

text \<open>Lines 330 to 387: the body of the loop over the last axis of the data.\<close>

definition make_image ::
  "('px, 'f::zero) env \<Rightarrow> config \<Rightarrow> 'f image_header list \<Rightarrow> meta list \<Rightarrow> 'px ndarray
     \<Rightarrow> nat \<Rightarrow> error + ('px, 'f) image" where
  "make_image env cfg heads metas data3 iImg =
     and_then (index_last data3 iImg) (\<lambda>plane.
     and_then (transpose_nd [3, 2, 0, 1] plane) (\<lambda>arr.
     and_then (from_array arr) (\<lambda>imageOut.
     and_then (getitem heads iImg) (\<lambda>oldHeader.
       let oldHeader = oldHeader\<lparr>data_type := data_type (head imageOut)\<rparr>;
           oldHeader =
             (if data_type (head imageOut) = DATATYPE_CXFLOAT
                 \<or> data_type (head imageOut) = DATATYPE_CXDOUBLE
              then oldHeader\<lparr>image_type := IMTYPE_COMPLEX\<rparr> else oldHeader)
       in
     and_then (getitem metas iImg) (\<lambda>tmpMeta.
     and_then (series_end env tmpMeta) (\<lambda>_.
       Inr (set_attribute_string env (setHead imageOut oldHeader)
              (derived_meta env cfg (shape data3) oldHeader tmpMeta))))))))"

text \<open>Lines 397 to 409: an original image is given series index 99 and
  \<open>Keep_image_geometry\<close>, and inserted at the front of the list. \<open>tmpImg = image\<close> binds
  the same object, so the image in the group changes too.\<close>

definition mark_original :: "('px, 'f) env \<Rightarrow> ('px, 'f) image \<Rightarrow> ('px, 'f) image" where
  "mark_original env tmpImg =
     set_attribute_string env (tmpImg\<lparr>head := (head tmpImg)\<lparr>image_series_index := 99\<rparr>\<rparr>)
       ((attribute_string tmpImg)(''Keep_image_geometry'' \<mapsto> MetaInt 1))"

definition prepend_originals ::
  "('px, 'f) env \<Rightarrow> ('px, 'f) image list \<Rightarrow> ('px, 'f) image list \<Rightarrow> ('px, 'f) image list" where
  "prepend_originals env images imagesOut =
     foldl (\<lambda>out tmpImg. mark_original env tmpImg # out) imagesOut (rev images)"

text \<open>Lines 301 to 411, everything after the file is written. The result is the list
  returned and the group as the call leaves it. \<open>caller\<close> is the name of the calling
  function, which line 392 reads from the stack.\<close>

definition finish ::
  "('px, 'f::zero) env \<Rightarrow> string \<Rightarrow> config \<Rightarrow> ('px, 'f) image list \<Rightarrow> 'px ndarray
     \<Rightarrow> error + (('px, 'f) image list \<times> ('px, 'f) image list)" where
  "finish env caller cfg images data1 =
     and_then (convert env data1) (\<lambda>data3.
     and_then (traverse (make_image env cfg (map getHead images) (map attribute_string images) data3)
                 [0..<last (shape data3)]) (\<lambda>imagesOut.
       if sendoriginal cfg then
         (if caller = ''process_raw'' then Inr (imagesOut, images)
          else Inr (prepend_originals env images imagesOut, map (mark_original env) images))
       else Inr (imagesOut, images)))"

text \<open>Lines 149 to 411. The function never uses its \<open>connection\<close> argument, which is
  left out. The result is what the call returns or raises, and the world it leaves.\<close>

definition process_image ::
  "('px, 'f::zero) env \<Rightarrow> string \<Rightarrow> config \<Rightarrow> mrd_header \<Rightarrow> ('px, 'f) image list
     \<Rightarrow> 'px world
     \<Rightarrow> (error + (('px, 'f) image list \<times> ('px, 'f) image list)) \<times> 'px world" where
  "process_image env caller cfg mrdHeader images w =
     (if length images = 0 then (Inr ([], images), w)
      else
        case (if \<not> path_exists w debugFolder then makedirs w debugFolder else Inr w) of
          Inl e \<Rightarrow> (Inl e, w)
        | Inr w1 \<Rightarrow>
            (case prepare env mrdHeader images of
               Inl e \<Rightarrow> (Inl e, w1)
             | Inr data1 \<Rightarrow>
                 (case nib_save data1 nifti_path w1 of
                    Inl e \<Rightarrow> (Inl e, w1)
                  | Inr w2 \<Rightarrow> (finish env caller cfg images data1, w2))))"

subsection \<open>\<open>process\<close>\<close>

text \<open>
  An acquisition carries the 64 flag bits of its header; flag \<open>n\<close> of the MRD standard
  is bit \<open>n - 1\<close>. A waveform carries a time stamp, an id and a \<open>[channels, samples]\<close>
  array, of which only the shape matters here.
\<close>

record acquisition =
  acq_flags :: "64 word"
  scan_counter :: "32 word"

definition ACQ_LAST_IN_SLICE :: nat where "ACQ_LAST_IN_SLICE = 8"
definition ACQ_IS_NOISE_MEASUREMENT :: nat where "ACQ_IS_NOISE_MEASUREMENT = 19"
definition ACQ_IS_PARALLEL_CALIBRATION :: nat where "ACQ_IS_PARALLEL_CALIBRATION = 20"
definition ACQ_IS_NAVIGATION_DATA :: nat where "ACQ_IS_NAVIGATION_DATA = 23"
definition ACQ_IS_PHASECORR_DATA :: nat where "ACQ_IS_PHASECORR_DATA = 24"

definition is_flag_set :: "acquisition \<Rightarrow> nat \<Rightarrow> bool" where
  "is_flag_set acq val = bit (acq_flags acq) (val - 1)"

record waveform =
  time_stamp :: "32 word"
  waveform_id :: "16 word"
  waveform_channels :: nat
  number_of_samples :: nat

datatype ('px, 'f) item =
    AcquisitionItem acquisition
  | ImageItem "('px, 'f) image"
  | WaveformItem waveform
  | NoneItem
  | OtherItem string

text \<open>What the connection is asked to send. A logging message carries its level and,
  for the traceback text, the exception the traceback is of.\<close>

datatype logging_level = MRD_LOGGING_ERROR | MRD_LOGGING_OTHER nat

datatype ('px, 'f) message =
    SendImage "('px, 'f) image list"
  | SendLogging logging_level error
  | SendClose

text \<open>The local variables of \<open>process\<close>, the messages sent so far, and the world.\<close>

record ('px, 'f) state =
  acqGroup :: "acquisition list"
  imgGroup :: "('px, 'f) image list"
  waveformGroup :: "waveform list"
  sent :: "('px, 'f) message list"
  world :: "'px world"

text \<open>The module calls \<open>process_raw\<close> on lines 69 and 129 and neither defines nor imports
  it: the call raises NameError.\<close>

definition process_raw ::
  "acquisition list \<Rightarrow> config \<Rightarrow> mrd_header \<Rightarrow> error + ('px, 'f) image list" where
  "process_raw acqs cfg mrdHeader = Inl (NameError ''process_raw'')"

datatype 's flow = Continue 's | Break 's | Raise error 's

fun state_of :: "'s flow \<Rightarrow> 's" where
  "state_of (Continue s) = s"
| "state_of (Break s) = s"
| "state_of (Raise e s) = s"

text \<open>Lines 57 to 112: the body of the loop over the connection.\<close>

definition process_item ::
  "config \<Rightarrow> mrd_header \<Rightarrow> ('px, 'f) item \<Rightarrow> ('px, 'f) state \<Rightarrow> ('px, 'f) state flow" where
  "process_item cfg mrdHeader it st =
     (case it of
        AcquisitionItem acq \<Rightarrow>
          let st1 =
                (if \<not> is_flag_set acq ACQ_IS_NOISE_MEASUREMENT
                    \<and> \<not> is_flag_set acq ACQ_IS_PARALLEL_CALIBRATION
                    \<and> \<not> is_flag_set acq ACQ_IS_PHASECORR_DATA
                    \<and> \<not> is_flag_set acq ACQ_IS_NAVIGATION_DATA
                 then st\<lparr>acqGroup := acqGroup st @ [acq]\<rparr> else st)
          in if is_flag_set acq ACQ_LAST_IN_SLICE
             then (case process_raw (acqGroup st1) cfg mrdHeader of
                     Inl e \<Rightarrow> Raise e st1
                   | Inr images \<Rightarrow>
                       Continue (st1\<lparr>sent := sent st1 @ [SendImage images], acqGroup := []\<rparr>))
             else Continue st1
      | ImageItem img \<Rightarrow> Continue (st\<lparr>imgGroup := imgGroup st @ [img]\<rparr>)
      | WaveformItem wav \<Rightarrow> Continue (st\<lparr>waveformGroup := waveformGroup st @ [wav]\<rparr>)
      | NoneItem \<Rightarrow> Break st
      | OtherItem type_name \<Rightarrow> Continue st)"

text \<open>Line 53: the loop ends with the connection, at \<open>None\<close>, or at an exception.\<close>

fun receive ::
  "config \<Rightarrow> mrd_header \<Rightarrow> ('px, 'f) item list \<Rightarrow> ('px, 'f) state
     \<Rightarrow> error option \<times> ('px, 'f) state" where
  "receive cfg mrdHeader [] st = (None, st)"
| "receive cfg mrdHeader (it # rest) st =
     (case process_item cfg mrdHeader it st of
        Continue st' \<Rightarrow> receive cfg mrdHeader rest st'
      | Break st' \<Rightarrow> (None, st')
      | Raise e st' \<Rightarrow> (Some e, st'))"

text \<open>Lines 117 to 121: the ECG waveforms, sorted by time, are concatenated along
  axis 1; NumPy raises ValueError when their channel counts differ. The result is
  never used.\<close>

definition extract_ecg :: "waveform list \<Rightarrow> error + unit" where
  "extract_ecg waveforms =
     (if length waveforms > 0 then
        let ecgData = filter (\<lambda>wav. waveform_id wav = 0) (sort_key time_stamp waveforms)
        in if length ecgData > 0 then
             (if list_all (\<lambda>wav. waveform_channels wav = waveform_channels (hd ecgData)) ecgData
              then Inr () else Inl ValueError)
           else Inr ()
      else Inr ())"

text \<open>Lines 127 to 131.\<close>

definition remaining_raw ::
  "config \<Rightarrow> mrd_header \<Rightarrow> ('px, 'f) state \<Rightarrow> error option \<times> ('px, 'f) state" where
  "remaining_raw cfg mrdHeader st =
     (if length (acqGroup st) > 0 then
        (case process_raw (acqGroup st) cfg mrdHeader of
           Inl e \<Rightarrow> (Some e, st)
         | Inr images \<Rightarrow> (None, st\<lparr>sent := sent st @ [SendImage images], acqGroup := []\<rparr>))
      else (None, st))"

text \<open>Lines 133 to 139.\<close>

definition remaining_images ::
  "('px, 'f::zero) env \<Rightarrow> config \<Rightarrow> mrd_header \<Rightarrow> ('px, 'f) state
     \<Rightarrow> error option \<times> ('px, 'f) state" where
  "remaining_images env cfg mrdHeader st =
     (if length (imgGroup st) > 0 then
        (case process_image env ''process'' cfg mrdHeader (imgGroup st) (world st) of
           (Inl e, w) \<Rightarrow> (Some e, st\<lparr>world := w\<rparr>)
         | (Inr (images, originals), w) \<Rightarrow>
             (None, st\<lparr>sent := sent st @ [SendImage images], imgGroup := [], world := w\<rparr>))
      else (None, st))"

text \<open>Lines 53 to 139: the body of the \<open>try\<close> statement, with the exception that left it.\<close>

definition try_body ::
  "('px, 'f::zero) env \<Rightarrow> config \<Rightarrow> mrd_header \<Rightarrow> ('px, 'f) item list \<Rightarrow> ('px, 'f) state
     \<Rightarrow> error option \<times> ('px, 'f) state" where
  "try_body env cfg mrdHeader connection st0 =
     (case receive cfg mrdHeader connection st0 of
        (Some e, st) \<Rightarrow> (Some e, st)
      | (None, st) \<Rightarrow>
          (case extract_ecg (waveformGroup st) of
             Inl e \<Rightarrow> (Some e, st)
           | Inr _ \<Rightarrow>
               (case remaining_raw cfg mrdHeader st of
                  (Some e, st') \<Rightarrow> (Some e, st')
                | (None, st') \<Rightarrow> remaining_images env cfg mrdHeader st')))"

text \<open>Lines 48 to 51: the groups start empty. Nothing has been sent.\<close>

definition initial_state :: "'px world \<Rightarrow> ('px, 'f) state" where
  "initial_state w =
     \<lparr>acqGroup = [], imgGroup = [], waveformGroup = [], sent = [], world = w\<rparr>"

text \<open>Lines 24 to 146. \<open>connection\<close> is the list of items the connection yields; the
  result holds the messages sent, in order, and the world the call leaves.\<close>

definition process ::
  "('px, 'f::zero) env \<Rightarrow> ('px, 'f) item list \<Rightarrow> config \<Rightarrow> mrd_header \<Rightarrow> 'px world
     \<Rightarrow> ('px, 'f) state" where
  "process env connection cfg mrdHeader w =
     (let (raised, st) = try_body env cfg mrdHeader connection (initial_state w);
          st = (case raised of
                  None \<Rightarrow> st
                | Some e \<Rightarrow> st\<lparr>sent := sent st @ [SendLogging MRD_LOGGING_ERROR e]\<rparr>)
      in st\<lparr>sent := sent st @ [SendClose]\<rparr>)"

section \<open>Notions used in the statements\<close>

text \<open>Lines 316 to 319 on one array: float64, rounded, int16.\<close>

definition to_int16 :: "'px numpy \<Rightarrow> 'px ndarray \<Rightarrow> 'px ndarray" where
  "to_int16 np a = astype np int16 (around np (astype np float64 a))"

text \<open>The header of a derived image: the header of its input with the data type of
  int16 data.\<close>

definition derived_header :: "'f image_header \<Rightarrow> 'f image_header" where
  "derived_header hdr = hdr\<lparr>data_type := DATATYPE_SHORT\<rparr>"

text \<open>The derived image of an input: the derived header, with the length of the new
  attribute string; the attributes of lines 357 to 381; the converted data.
  \<open>data_shape\<close> is the shape of the stacked data, which only the ROI depends on.\<close>

definition derived_image ::
  "('px, 'f) env \<Rightarrow> config \<Rightarrow> nat list \<Rightarrow> ('px, 'f) image \<Rightarrow> ('px, 'f) image" where
  "derived_image env cfg data_shape img =
     (let m = derived_meta env cfg data_shape (derived_header (head img)) (attribute_string img)
      in \<lparr>head = (derived_header (head img))
                    \<lparr>attribute_string_len := of_nat (serialized_len env m)\<rparr>,
          attribute_string = m,
          data = to_int16 (numpy env) (data img)\<rparr>)"

text \<open>Where the derived images start in the list returned: after the originals when
  line 409 has put them in front.\<close>

definition first_derived :: "config \<Rightarrow> string \<Rightarrow> nat \<Rightarrow> nat" where
  "first_derived cfg caller n = (if sendoriginal cfg \<and> caller \<noteq> ''process_raw'' then n else 0)"

text \<open>The images a call of \<open>process_image\<close> returns; none when it raises.\<close>

definition images_of :: "(error + ('a list \<times> 'b)) \<times> 'w \<Rightarrow> 'a list" where
  "images_of r = (case fst r of Inl e \<Rightarrow> [] | Inr (out, grp) \<Rightarrow> out)"

text \<open>
  Inputs on which \<open>process_image\<close> returns: a non-empty group of images whose data
  are well-formed four-dimensional arrays of one shape, whose common dtype is not
  int64, with no ICE mini header that fails to decode; a parsed MRD header whose first
  encoding has a non-zero matrix size; a debug folder that exists or can be created;
  and an existing directory \<open>/buildhostdirectory\<close>, not below a file, in which
  \<open>test.nii\<close> is not a directory.
\<close>

definition accepted ::
  "('px, 'f) env \<Rightarrow> mrd_header \<Rightarrow> ('px, 'f) image list \<Rightarrow> 'px world \<Rightarrow> bool" where
  "accepted env mrdHeader images w =
     (images \<noteq> []
      \<and> list_all (\<lambda>img. length (shape (data img)) = 4 \<and> shape (data img) = shape (data (hd images))
                         \<and> well_formed (data img)
                         \<and> series_end env (attribute_string img) = Inr ()) images
      \<and> result_type (map (\<lambda>img. dtype (data img)) images) \<noteq> int64
      \<and> voxel_sizes mrdHeader = Inr ()
      \<and> (path_exists w debugFolder \<or> list_all (\<lambda>q. files w q = None) (prefixes debugFolder))
      \<and> list_all (\<lambda>q. files w q = None) (prefixes (butlast nifti_path))
      \<and> butlast nifti_path \<in> dirs w \<and> nifti_path \<notin> dirs w)"

text \<open>Lines 61 to 64: an acquisition is kept when none of the four flags is set.\<close>

definition imaging :: "acquisition \<Rightarrow> bool" where
  "imaging acq =
     (\<not> is_flag_set acq ACQ_IS_NOISE_MEASUREMENT
      \<and> \<not> is_flag_set acq ACQ_IS_PARALLEL_CALIBRATION
      \<and> \<not> is_flag_set acq ACQ_IS_PHASECORR_DATA
      \<and> \<not> is_flag_set acq ACQ_IS_NAVIGATION_DATA)"

text \<open>The items of a stream that the loop gets to: those before the first \<open>None\<close>, and
  none after the first acquisition with ACQ_LAST_IN_SLICE, where the loop is left by
  the exception.\<close>

fun consumed :: "('px, 'f) item list \<Rightarrow> ('px, 'f) item list" where
  "consumed [] = []"
| "consumed (NoneItem # rest) = []"
| "consumed (AcquisitionItem acq # rest) =
     (if is_flag_set acq ACQ_LAST_IN_SLICE then [AcquisitionItem acq]
      else AcquisitionItem acq # consumed rest)"
| "consumed (it # rest) = it # consumed rest"

text \<open>Whether an acquisition with ACQ_LAST_IN_SLICE comes before the first \<open>None\<close>.\<close>

fun ends_slice :: "('px, 'f) item list \<Rightarrow> bool" where
  "ends_slice [] = False"
| "ends_slice (NoneItem # rest) = False"
| "ends_slice (AcquisitionItem acq # rest) =
     (is_flag_set acq ACQ_LAST_IN_SLICE \<or> ends_slice rest)"
| "ends_slice (it # rest) = ends_slice rest"

text \<open>The kept acquisitions, the images and the waveforms of a list of items, in the
  order of the list.\<close>

fun acquisitions_in :: "('px, 'f) item list \<Rightarrow> acquisition list" where
  "acquisitions_in [] = []"
| "acquisitions_in (AcquisitionItem acq # rest) =
     (if imaging acq then acq # acquisitions_in rest else acquisitions_in rest)"
| "acquisitions_in (it # rest) = acquisitions_in rest"

fun images_in :: "('px, 'f) item list \<Rightarrow> ('px, 'f) image list" where
  "images_in [] = []"
| "images_in (ImageItem img # rest) = img # images_in rest"
| "images_in (it # rest) = images_in rest"

fun waveforms_in :: "('px, 'f) item list \<Rightarrow> waveform list" where
  "waveforms_in [] = []"
| "waveforms_in (WaveformItem wav # rest) = wav # waveforms_in rest"
| "waveforms_in (it # rest) = waveforms_in rest"

section \<open>A concrete instance\<close>

text \<open>
  For evaluation on concrete inputs: NumPy's scalar functions on rational numbers,
  which hold every finite value of the dtypes above. A conversion to a float or complex
  dtype keeps the number (exact for the numbers evaluated below). A conversion to an
  integer dtype truncates toward zero, goes through a 32-bit integer (64-bit for uint32
  and int64), where a number out of range becomes the least one, and keeps the low bits,
  as NumPy does on x86-64. \<open>np.around\<close> rounds half to even. \<open>'{:.18f}'.format\<close> prints
  eighteen decimals. The length of the serialized attributes is that of the XML text
  of the attributes with the names the module reads or writes; the inputs evaluated
  have no others. They carry no ICE mini header and ask for no ROI, so the two
  remaining functions are never called.
\<close>

definition round_half_even :: "rat \<Rightarrow> int" where
  "round_half_even q =
     (let f = \<lfloor>q\<rfloor>; r = q - of_int f
      in if r < 1 / 2 then f else if 1 / 2 < r then f + 1 else if even f then f else f + 1)"

definition wrap_int :: "np_dtype \<Rightarrow> int \<Rightarrow> int" where
  "wrap_int dt n =
     (if kind_of dt = Unsigned then n mod 2 ^ int_bits dt
      else (n + 2 ^ (int_bits dt - 1)) mod 2 ^ int_bits dt - 2 ^ (int_bits dt - 1))"

definition cast_int :: "np_dtype \<Rightarrow> int \<Rightarrow> int" where
  "cast_int dt n =
     (let width = (if dt = uint16 \<or> dt = int16 \<or> dt = int32 then 32 else 64 :: nat)
      in wrap_int dt (if - (2 ^ (width - 1)) \<le> n \<and> n < 2 ^ (width - 1) then n
                      else - (2 ^ (width - 1))))"

definition numpy_rat :: "rat numpy" where
  "numpy_rat =
     \<lparr>astype_scalar = (\<lambda>dt v.
        if kind_of dt = Floating \<or> kind_of dt = Complex then v
        else of_int (cast_int dt (if 0 \<le> v then \<lfloor>v\<rfloor> else \<lceil>v\<rceil>))),
      around_scalar = (\<lambda>v. of_int (round_half_even v))\<rparr>"

definition format_18f_rat :: "rat \<Rightarrow> string" where
  "format_18f_rat q =
     (let n = nat (round_half_even (\<bar>q\<bar> * 10 ^ 18));
          frac = str_nat (n mod 10 ^ 18)
      in (if q < 0 then ''-'' else []) @ str_nat (n div 10 ^ 18) @ ''.''
           @ replicate (18 - length frac) (CHR ''0'') @ frac)"

definition value_texts :: "meta_value \<Rightarrow> string list" where
  "value_texts v =
     (case v of
        MetaStr t \<Rightarrow> [t]
      | MetaInt n \<Rightarrow> [(if n < 0 then ''-'' else []) @ str_nat (nat \<bar>n\<bar>)]
      | MetaList ts \<Rightarrow> ts)"

definition attribute_names :: "string list" where
  "attribute_names =
     [''DataRole'', ''ImageProcessingHistory'', ''WindowCenter'', ''WindowWidth'',
      ''SequenceDescriptionAdditional'', ''Keep_image_geometry'', ''ROI_example'',
      ''LUTFileName'', ''ImageRowDir'', ''ImageColumnDir'', ''IceMiniHead'']"

definition meta_xml :: "meta \<Rightarrow> string" where
  "meta_xml m =
     ''<ismrmrdMeta>''
     @ concat (map (\<lambda>name. case m name of
                      None \<Rightarrow> []
                    | Some v \<Rightarrow>
                        ''<meta><name>'' @ name @ ''</name>''
                        @ concat (map (\<lambda>t. ''<value>'' @ t @ ''</value>'') (value_texts v))
                        @ ''</meta>'') attribute_names)
     @ ''</ismrmrdMeta>''"

definition test_env :: "(rat, rat) env" where
  "test_env = \<lparr>numpy = numpy_rat, b64decode_utf8 = (\<lambda>v. None),
                format_18f = format_18f_rat, create_example_roi = (\<lambda>sh. []),
                serialized_len = (\<lambda>m. length (meta_xml m))\<rparr>"

text \<open>One float32 image of one channel, one slice, one row and two columns, holding
  0.5 and 1.5; a world in which \<open>/buildhostdirectory\<close> exists; a header with a 2 x 1 x 1
  matrix.\<close>

definition example_header :: "rat image_header" where
  "example_header =
     (new_header DATATYPE_FLOAT [1, 1, 1, 2])
       \<lparr>read_dir := (1, 0, 0), phase_dir := (0, 1, 0), slice_dir := (0, 0, 1),
        image_type := 1, image_index := 1, image_series_index := 1,
        attribute_string_len := of_nat (length (meta_xml Map.empty))\<rparr>"

definition example_image :: "(rat, rat) image" where
  "example_image =
     \<lparr>head = example_header, attribute_string = Map.empty,
      data = \<lparr>dtype = float32, shape = [1, 1, 1, 2], elems = [1 / 2, 3 / 2]\<rparr>\<rparr>"

definition example_world :: "rat world" where
  "example_world = \<lparr>dirs = {[''buildhostdirectory'']}, files = Map.empty, subprocesses = []\<rparr>"

definition example_mrd_header :: mrd_header where
  "example_mrd_header = HeaderXml [(2, 1, 1)]"

definition default_config :: config where
  "default_config = \<lparr>sendoriginal = False, options = None\<rparr>"

definition sendoriginal_config :: config where
  "sendoriginal_config = \<lparr>sendoriginal = True, options = None\<rparr>"

text \<open>A stream of an image, an imaging acquisition, a noise measurement (flag 19), a
  waveform, an item of another type, \<open>None\<close>, and an image that is never read.\<close>

definition example_waveform :: waveform where
  "example_waveform =
     \<lparr>time_stamp = 0, waveform_id = 0, waveform_channels = 1, number_of_samples = 4\<rparr>"

definition example_connection :: "(rat, rat) item list" where
  "example_connection =
     [ImageItem example_image,
      AcquisitionItem \<lparr>acq_flags = 0, scan_counter = 1\<rparr>,
      AcquisitionItem \<lparr>acq_flags = 262144, scan_counter = 2\<rparr>,
      WaveformItem example_waveform,
      OtherItem ''str'',
      NoneItem,
      ImageItem example_image]"

section \<open>Properties\<close>

subsection \<open>Exceptions and loops\<close>

lemma and_then_Inl [simp]: "and_then (Inl e) f = Inl e"
  by (simp add: and_then_def)

lemma and_then_Inr [simp]: "and_then (Inr x) f = f x"
  by (simp add: and_then_def)

lemma and_then_eq_Inr: "and_then r f = Inr y \<longleftrightarrow> (\<exists>x. r = Inr x \<and> f x = Inr y)"
  by (cases r) simp_all

lemma traverse_Inr:
  "traverse f xs = Inr ys \<Longrightarrow> length ys = length xs \<and> (\<forall>i<length xs. f (xs ! i) = Inr (ys ! i))"
proof (induction xs arbitrary: ys)
  case Nil
  then show ?case by simp
next
  case (Cons x xs)
  from Cons.prems obtain y zs where y: "f x = Inr y" and zs: "traverse f xs = Inr zs"
    and ys: "ys = y # zs"
    by (auto simp: and_then_eq_Inr)
  from Cons.IH [OF zs] y ys show ?case
    by (auto simp: nth_Cons split: nat.splits)
qed

subsection \<open>Arrays\<close>

lemma length_indices: "length (indices sh) = prod_list sh"
  by (induction sh) (simp_all add: length_concat comp_def sum_list_triv)

lemma concat_blocks_length:
  "(\<And>i. i < n \<Longrightarrow> length (f i) = m) \<Longrightarrow> length (concat (map f [0..<n])) = n * m"
  by (induction n) simp_all

lemma nth_concat_blocks:
  assumes "\<And>i. i < n \<Longrightarrow> length (f i) = m" and "i < n" and "j < m"
  shows "concat (map f [0..<n]) ! (i * m + j) = f i ! j"
  using assms
proof (induction n)
  case 0
  then show ?case by simp
next
  case (Suc n)
  have lens: "\<And>k. k < n \<Longrightarrow> length (f k) = m"
    using Suc.prems(1) by simp
  have len: "length (concat (map f [0..<n])) = n * m"
    using lens by (rule concat_blocks_length)
  have split: "concat (map f [0..<Suc n]) = concat (map f [0..<n]) @ f n"
    by simp
  show ?case
  proof (cases "i < n")
    case True
    then have "Suc i \<le> n" by simp
    then have "Suc i * m \<le> n * m" by (rule mult_le_mono1)
    with \<open>j < m\<close> have lt: "i * m + j < n * m" by simp
    have "concat (map f [0..<n]) ! (i * m + j) = f i ! j"
      using lens True \<open>j < m\<close> by (rule Suc.IH)
    with lt len show ?thesis
      unfolding split by (simp only: nth_append if_True)
  next
    case False
    with Suc.prems(2) have "i = n" by simp
    then show ?thesis
      unfolding split using len by (simp only: nth_append) simp
  qed
qed

lemma offset_less: "in_bounds sh idx \<Longrightarrow> offset sh idx < prod_list sh"
  unfolding in_bounds_def
proof (induction idx sh rule: list_all2_induct)
  case Nil
  then show ?case by simp
next
  case (Cons i idx n sh)
  have "i * prod_list sh + offset sh idx < i * prod_list sh + prod_list sh"
    using Cons.IH by simp
  also have "\<dots> = Suc i * prod_list sh" by simp
  also have "\<dots> \<le> n * prod_list sh"
    using Cons.hyps(1) by (intro mult_le_mono1) simp
  finally show ?case by simp
qed

lemma indices_nth_offset: "in_bounds sh idx \<Longrightarrow> indices sh ! offset sh idx = idx"
  unfolding in_bounds_def
proof (induction idx sh rule: list_all2_induct)
  case Nil
  then show ?case by simp
next
  case (Cons i idx n sh)
  have lt: "offset sh idx < prod_list sh"
    using Cons.hyps(2) by (simp add: offset_less in_bounds_def)
  have "concat (map (\<lambda>i. map ((#) i) (indices sh)) [0..<n]) ! (i * prod_list sh + offset sh idx)
        = map ((#) i) (indices sh) ! offset sh idx"
    using Cons.hyps(1) lt by (intro nth_concat_blocks) (simp_all add: length_indices)
  with lt Cons.IH show ?case by (simp add: length_indices)
qed

lemma item_array_of: "in_bounds sh idx \<Longrightarrow> item (array_of dt sh f) idx = f idx"
  by (simp add: item_def array_of_def offset_less length_indices indices_nth_offset)

lemma in_bounds_indices: "idx \<in> set (indices sh) \<Longrightarrow> in_bounds sh idx"
  unfolding in_bounds_def
  by (induction sh arbitrary: idx) auto

lemma upt_blocks: "concat (map (\<lambda>i. map (\<lambda>k. i * m + k) [0..<m]) [0..<n]) = [0..<n * m]"
proof (induction n)
  case 0
  then show ?case by simp
next
  case (Suc n)
  have a: "map (\<lambda>k. n * m + k) [0..<m] = map (\<lambda>k. k + n * m) [0..<m]"
    by (simp only: add.commute)
  have b: "[0..<n * m + m] = [0..<n * m] @ [n * m..<n * m + m]"
    by (rule upt_add_eq_append) simp
  have c: "map (\<lambda>k. k + n * m) [0..<m] = [n * m..<m + n * m]"
    by (rule map_add_upt)
  have d: "Suc n * m = n * m + m" by simp
  have e: "m + n * m = n * m + m" by simp
  have "concat (map (\<lambda>i. map (\<lambda>k. i * m + k) [0..<m]) [0..<Suc n])
        = concat (map (\<lambda>i. map (\<lambda>k. i * m + k) [0..<m]) [0..<n]) @ map (\<lambda>k. n * m + k) [0..<m]"
    by simp
  also have "\<dots> = [0..<n * m] @ [n * m..<n * m + m]"
    by (simp only: Suc.IH a c e)
  finally show ?case by (simp only: b d)
qed

lemma map_offset_indices: "map (offset sh) (indices sh) = [0..<prod_list sh]"
proof (induction sh)
  case Nil
  then show ?case by simp
next
  case (Cons n sh)
  have "map (offset (n # sh)) (indices (n # sh))
        = concat (map (\<lambda>i. map (\<lambda>is. i * prod_list sh + offset sh is) (indices sh)) [0..<n])"
    by (simp add: map_concat comp_def)
  also have "\<dots> = concat (map (\<lambda>i. map (\<lambda>k. i * prod_list sh + k) (map (offset sh) (indices sh))) [0..<n])"
    by (simp add: comp_def)
  also have "\<dots> = [0..<n * prod_list sh]"
    by (simp only: Cons.IH upt_blocks)
  finally show ?case by simp
qed

lemma map_item_indices:
  assumes "well_formed a"
  shows "map (item a) (indices (shape a)) = elems a"
proof -
  have "map (item a) (indices (shape a))
        = map ((!) (elems a)) (map (offset (shape a)) (indices (shape a)))"
    by (simp add: comp_def item_def [abs_def])
  also have "\<dots> = elems a"
    using assms map_nth [of "elems a"] by (simp add: map_offset_indices well_formed_def)
  finally show ?thesis .
qed

lemma array_of_pointwise:
  assumes "well_formed a" and "shape a = sh"
    and "\<And>idx. in_bounds sh idx \<Longrightarrow> f idx = g (item a idx)"
  shows "array_of dt sh f = \<lparr>dtype = dt, shape = sh, elems = map g (elems a)\<rparr>"
proof -
  have "map f (indices sh) = map (\<lambda>idx. g (item a idx)) (indices sh)"
    using assms(3) by (intro map_cong refl) (simp add: in_bounds_indices)
  also have "\<dots> = map g (map (item a) (indices (shape a)))"
    using assms(2) by (simp add: comp_def)
  also have "\<dots> = map g (elems a)"
    using assms(1) by (simp add: map_item_indices)
  finally show ?thesis by (simp add: array_of_def)
qed

lemma well_formed_array_of: "well_formed (array_of dt sh f)"
  by (simp add: well_formed_def array_of_def length_indices)

lemma transpose_nd_Inr:
  assumes "transpose_nd axes a = Inr b"
  shows "sort axes = [0..<length (shape a)]"
    and "b = array_of (dtype a) (map (\<lambda>k. shape a ! k) axes) (\<lambda>idx. item a (source_index axes idx))"
  using assms by (auto simp: transpose_nd_def split: if_splits)

lemma item_stack:
  assumes "stack arrays = Inr d" and "\<forall>a \<in> set arrays. well_formed a"
    and "i < length arrays" and "in_bounds (shape (arrays ! i)) idx"
  shows "item d (i # idx) = item (arrays ! i) idx"
proof -
  from assms(1) obtain a rest where ar: "arrays = a # rest"
    by (cases arrays) (auto simp: stack_def)
  from assms(1) ar have same: "\<forall>b \<in> set arrays. shape b = shape a"
    and d: "shape d = length arrays # shape a" "elems d = concat (map elems arrays)"
    by (auto simp: stack_def list_all_iff split: if_splits)
  let ?m = "prod_list (shape a)"
  have len: "\<And>k. k < length arrays \<Longrightarrow> length (elems (arrays ! k)) = ?m"
    using assms(2) same by (simp add: well_formed_def)
  have shi: "shape (arrays ! i) = shape a"
    using same assms(3) by simp
  have lt: "offset (shape a) idx < ?m"
    using assms(4) shi by (simp add: offset_less)
  have "map (\<lambda>k. elems (arrays ! k)) [0..<length arrays]
        = map elems (map ((!) arrays) [0..<length arrays])"
    by (simp only: map_map comp_def)
  then have "map (\<lambda>k. elems (arrays ! k)) [0..<length arrays] = map elems arrays"
    by (simp only: map_nth)
  then have "concat (map elems arrays) = concat (map (\<lambda>k. elems (arrays ! k)) [0..<length arrays])"
    by simp
  then have "concat (map elems arrays) ! (i * ?m + offset (shape a) idx)
             = elems (arrays ! i) ! offset (shape a) idx"
    using nth_concat_blocks [of "length arrays" "\<lambda>k. elems (arrays ! k)" ?m i "offset (shape a) idx"]
      len assms(3) lt by simp
  then show ?thesis
    by (simp add: item_def d shi)
qed

lemma length4E:
  assumes "length (s :: 'a list) = 4"
  obtains a b c d where "s = [a, b, c, d]"
  using assms by (auto simp: length_Suc_conv eval_nat_numeral)

lemma in_bounds4:
  "in_bounds [A, B, C, D] idx \<longleftrightarrow> (\<exists>a b c d. idx = [a, b, c, d] \<and> a < A \<and> b < B \<and> c < C \<and> d < D)"
  by (auto simp: in_bounds_def list_all2_Cons2)

lemma in_bounds5 [simp]:
  "in_bounds [A, B, C, D, E] [a, b, c, d, e] \<longleftrightarrow> a < A \<and> b < B \<and> c < C \<and> d < D \<and> e < E"
  by (simp add: in_bounds_def)

lemma in_bounds4' [simp]:
  "in_bounds [A, B, C, D] [a, b, c, d] \<longleftrightarrow> a < A \<and> b < B \<and> c < C \<and> d < D"
  by (simp add: in_bounds_def)

lemma transpose_nd_length:
  assumes "transpose_nd axes a = Inr b"
  shows "length (shape a) = length axes"
proof -
  have "length (sort axes) = length [0..<length (shape a)]"
    using transpose_nd_Inr(1) [OF assms] by simp
  then show ?thesis by simp
qed

lemma source_index_34012: "source_index [3, 4, 0, 1, 2] [y, x, n, c, z] = [n, c, z, y, x]"
  by (simp add: source_index_def upt_rec)

lemma source_index_01432: "source_index [0, 1, 4, 3, 2] [y, x, z, c, n] = [y, x, n, c, z]"
  by (simp add: source_index_def upt_rec)

lemma source_index_3201: "source_index [3, 2, 0, 1] [c, z, y, x] = [y, x, z, c]"
  by (simp add: source_index_def upt_rec)

lemma array_of_cong:
  assumes "\<And>idx. in_bounds sh idx \<Longrightarrow> f idx = g idx"
  shows "array_of dt sh f = array_of dt sh g"
proof -
  have "map f (indices sh) = map g (indices sh)"
    using assms by (intro map_cong refl) (simp add: in_bounds_indices)
  then show ?thesis by (simp add: array_of_def)
qed

lemma load_data_Inr:
  assumes "load_data images = Inr data1"
    and wf: "\<forall>img \<in> set images. well_formed (data img)"
  obtains dt C Z Y X where
    "\<forall>img \<in> set images. shape (data img) = [C, Z, Y, X]"
    "data1 = array_of dt [Y, X, length images, C, Z]
               (\<lambda>idx. item (data (images ! (idx ! 2))) [idx ! 3, idx ! 4, idx ! 0, idx ! 1])"
proof -
  from assms(1) obtain data0 where st: "stack (map data images) = Inr data0"
    and tr: "transpose_nd [3, 4, 0, 1, 2] data0 = Inr data1"
    by (auto simp: load_data_def and_then_eq_Inr)
  from st obtain a rest where ar: "map data images = a # rest"
    by (cases "map data images") (auto simp: stack_def)
  from st ar have same: "\<forall>b \<in> set (map data images). shape b = shape a"
    and sh0: "shape data0 = length images # shape a"
    by (auto simp: stack_def list_all_iff split: if_splits)
  from transpose_nd_length [OF tr] sh0 have "length (shape a) = 4" by simp
  then obtain C Z Y X where sa: "shape a = [C, Z, Y, X]" by (rule length4E)
  have shapes: "\<forall>img \<in> set images. shape (data img) = [C, Z, Y, X]"
    using same sa by simp
  have d1: "data1 = array_of (dtype data0) [Y, X, length images, C, Z]
                     (\<lambda>idx. item data0 (source_index [3, 4, 0, 1, 2] idx))"
    using transpose_nd_Inr(2) [OF tr] by (simp add: sh0 sa)
  have "array_of (dtype data0) [Y, X, length images, C, Z]
                     (\<lambda>idx. item data0 (source_index [3, 4, 0, 1, 2] idx))
       = array_of (dtype data0) [Y, X, length images, C, Z]
          (\<lambda>idx. item (data (images ! (idx ! 2))) [idx ! 3, idx ! 4, idx ! 0, idx ! 1])"
  proof (rule array_of_cong)
    fix idx assume "in_bounds [Y, X, length images, C, Z] idx"
    then obtain y x n c z where idx: "idx = [y, x, n, c, z]"
      and b: "y < Y" "x < X" "n < length images" "c < C" "z < Z"
      by (auto simp: in_bounds_def list_all2_Cons2)
    have "item data0 (n # [c, z, y, x]) = item (map data images ! n) [c, z, y, x]"
      using st wf b shapes by (intro item_stack) simp_all
    then show "item data0 (source_index [3, 4, 0, 1, 2] idx)
               = item (data (images ! (idx ! 2))) [idx ! 3, idx ! 4, idx ! 0, idx ! 1]"
      unfolding idx source_index_34012 using b by simp
  qed
  with d1 have "data1 = array_of (dtype data0) [Y, X, length images, C, Z]
               (\<lambda>idx. item (data (images ! (idx ! 2))) [idx ! 3, idx ! 4, idx ! 0, idx ! 1])"
    by simp
  with shapes show ?thesis by (rule that)
qed

lemma to_int16_array_of:
  "to_int16 np (array_of dt sh f)
   = array_of int16 sh (\<lambda>idx. astype_scalar np int16 (around_scalar np (astype_scalar np float64 (f idx))))"
  by (simp add: to_int16_def astype_def around_def array_of_def comp_def)

lemma to_int16_eq:
  "to_int16 np a = \<lparr>dtype = int16, shape = shape a,
      elems = map (\<lambda>v. astype_scalar np int16 (around_scalar np (astype_scalar np float64 v))) (elems a)\<rparr>"
  by (cases a) (simp add: to_int16_def astype_def around_def comp_def)

lemma derived_array:
  assumes load: "load_data images = Inr data1"
    and wf: "\<forall>img \<in> set images. well_formed (data img)"
    and conv: "convert env data1 = Inr data3"
  shows "shape data3 \<noteq> []" and "last (shape data3) = length images"
    and "\<And>i. i < length images \<Longrightarrow>
          \<exists>plane arr. index_last data3 i = Inr plane \<and> transpose_nd [3, 2, 0, 1] plane = Inr arr
             \<and> length (shape arr) = 4
             \<and> arr = to_int16 (numpy env) (data (images ! i))"
proof -
  let ?np = "numpy env"
  let ?N = "length images"
  let ?cv = "\<lambda>v. astype_scalar ?np int16 (around_scalar ?np (astype_scalar ?np float64 v))"
  from load wf obtain dt C Z Y X where
    shapes: "\<forall>img \<in> set images. shape (data img) = [C, Z, Y, X]"
    and d1: "data1 = array_of dt [Y, X, ?N, C, Z]
               (\<lambda>idx. item (data (images ! (idx ! 2))) [idx ! 3, idx ! 4, idx ! 0, idx ! 1])"
    by (rule load_data_Inr)
  from conv obtain data2 where tr: "transpose_nd [0, 1, 4, 3, 2] data1 = Inr data2"
    and d3: "data3 = to_int16 ?np data2"
    by (auto simp: convert_def and_then_eq_Inr to_int16_def)
  have sh1: "shape data1 = [Y, X, ?N, C, Z]" and dt1: "dtype data1 = dt"
    by (simp_all add: d1 array_of_def)
  have d2: "data2 = array_of dt [Y, X, Z, C, ?N]
              (\<lambda>idx. item data1 (source_index [0, 1, 4, 3, 2] idx))"
    using transpose_nd_Inr(2) [OF tr] by (simp add: sh1 dt1)
  have d3': "data3 = array_of int16 [Y, X, Z, C, ?N]
              (\<lambda>idx. ?cv (item data1 (source_index [0, 1, 4, 3, 2] idx)))"
    by (simp only: d3 d2 to_int16_array_of)
  have sh3: "shape data3 = [Y, X, Z, C, ?N]"
    by (simp add: d3' array_of_def)
  show "shape data3 \<noteq> []" and "last (shape data3) = ?N"
    by (simp_all add: sh3)
  fix i assume i: "i < ?N"
  let ?plane = "array_of int16 [Y, X, Z, C] (\<lambda>idx. item data3 (idx @ [i]))"
  let ?arr = "array_of int16 [C, Z, Y, X] (\<lambda>idx. item ?plane (source_index [3, 2, 0, 1] idx))"
  have pl: "index_last data3 i = Inr ?plane"
    using i by (simp add: index_last_def sh3) (simp add: d3' array_of_def)
  have "sort [3, 2, 0, 1 :: nat] = [0..<length (shape ?plane)]"
    by (simp add: array_of_def upt_rec)
  then have ar: "transpose_nd [3, 2, 0, 1] ?plane = Inr ?arr"
    by (simp add: transpose_nd_def) (simp add: array_of_def)
  have wfi: "well_formed (data (images ! i))" and shi: "shape (data (images ! i)) = [C, Z, Y, X]"
    using wf shapes i by simp_all
  have "?arr = \<lparr>dtype = int16, shape = [C, Z, Y, X], elems = map ?cv (elems (data (images ! i)))\<rparr>"
  proof (rule array_of_pointwise [OF wfi shi])
    fix idx assume "in_bounds [C, Z, Y, X] idx"
    then obtain c z y x where idx: "idx = [c, z, y, x]"
      and b: "c < C" "z < Z" "y < Y" "x < X"
      by (auto simp: in_bounds4)
    have "item ?plane [y, x, z, c] = item data3 [y, x, z, c, i]"
      using b by (simp add: item_array_of)
    also have "\<dots> = ?cv (item data1 (source_index [0, 1, 4, 3, 2] [y, x, z, c, i]))"
      unfolding d3' using b i by (simp add: item_array_of)
    also have "\<dots> = ?cv (item data1 [y, x, i, c, z])"
      by (simp only: source_index_01432)
    also have "\<dots> = ?cv (item (data (images ! i)) [c, z, y, x])"
      unfolding d1 using b i by (simp add: item_array_of)
    finally show "item ?plane (source_index [3, 2, 0, 1] idx)
                  = ?cv (item (data (images ! i)) idx)"
      by (simp only: idx source_index_3201)
  qed
  then have "?arr = to_int16 ?np (data (images ! i))"
    by (simp add: to_int16_eq shi)
  moreover have "length (shape ?arr) = 4"
    by (simp add: array_of_def)
  ultimately show "\<exists>plane arr. index_last data3 i = Inr plane \<and> transpose_nd [3, 2, 0, 1] plane = Inr arr
             \<and> length (shape arr) = 4
             \<and> arr = to_int16 (numpy env) (data (images ! i))"
    using pl ar by metis
qed

subsection \<open>\<open>process_image\<close>\<close>

lemma prepend_originals_eq: "prepend_originals env images imagesOut = map (mark_original env) images @ imagesOut"
  unfolding prepend_originals_def
  by (induction images arbitrary: imagesOut) simp_all

lemma from_array_int16:
  assumes "dtype arr = int16" and "length (shape arr) = 4"
  shows "from_array arr = Inr \<lparr>head = new_header DATATYPE_SHORT (shape arr),
                                attribute_string = Map.empty, data = arr\<rparr>"
  using assms by (simp add: from_array_def)

lemma data_type_new_header: "data_type (new_header dt sh) = dt"
  by (simp add: new_header_def)

lemma derived_image_sel:
  "head (derived_image env cfg sh img)
     = (derived_header (head img))
         \<lparr>attribute_string_len :=
            of_nat (serialized_len env (attribute_string (derived_image env cfg sh img)))\<rparr>"
  "attribute_string (derived_image env cfg sh img)
     = derived_meta env cfg sh (derived_header (head img)) (attribute_string img)"
  "data (derived_image env cfg sh img) = to_int16 (numpy env) (data img)"
  by (simp_all add: derived_image_def Let_def)

lemma make_image_Inr:
  assumes load: "load_data images = Inr data1"
    and wf: "\<forall>img \<in> set images. well_formed (data img)"
    and conv: "convert env data1 = Inr data3"
    and i: "i < length images"
    and mk: "make_image env cfg (map getHead images) (map attribute_string images) data3 i = Inr img"
  shows "img = derived_image env cfg (shape data3) (images ! i)"
proof -
  from derived_array(3) [OF load wf conv i] obtain plane arr where
    pl: "index_last data3 i = Inr plane" and ar: "transpose_nd [3, 2, 0, 1] plane = Inr arr"
    and len: "length (shape arr) = 4" and arr: "arr = to_int16 (numpy env) (data (images ! i))"
    by blast
  have dt: "dtype arr = int16"
    by (simp add: arr to_int16_eq)
  have heads: "getitem (map getHead images) i = Inr (head (images ! i))"
    and metas: "getitem (map attribute_string images) i = Inr (attribute_string (images ! i))"
    using i by (simp_all add: getitem_def getHead_def)
  from mk show ?thesis
    unfolding make_image_def pl ar from_array_int16 [OF dt len] heads metas and_then_Inr
    by (auto simp: and_then_eq_Inr Let_def setHead_def derived_header_def arr data_type_new_header
        set_attribute_string_def derived_image_def)
qed

lemma finish_Inr:
  assumes fin: "finish env caller cfg images data1 = Inr (out, grp)"
    and load: "load_data images = Inr data1"
    and wf: "\<forall>img \<in> set images. well_formed (data img)"
  shows "\<exists>derived dshape.
           length derived = length images
         \<and> out = (if sendoriginal cfg \<and> caller \<noteq> ''process_raw''
                   then map (mark_original env) images @ derived else derived)
         \<and> grp = (if sendoriginal cfg \<and> caller \<noteq> ''process_raw''
                   then map (mark_original env) images else images)
         \<and> (\<forall>i<length images. derived ! i =
               derived_image env cfg dshape (images ! i))"
proof -
  from fin obtain data3 imagesOut where conv: "convert env data1 = Inr data3"
    and tr: "traverse (make_image env cfg (map getHead images) (map attribute_string images) data3)
               [0..<last (shape data3)] = Inr imagesOut"
    and res: "(if sendoriginal cfg then
                 (if caller = ''process_raw'' then Inr (imagesOut, images)
                  else Inr (prepend_originals env images imagesOut, map (mark_original env) images))
               else Inr (imagesOut, images)) = (Inr (out, grp) :: error + _)"
    unfolding finish_def and_then_eq_Inr by blast
  have n: "last (shape data3) = length images"
    by (rule derived_array(2) [OF load wf conv])
  from traverse_Inr [OF tr] have len: "length imagesOut = length images"
    and each: "\<And>i. i < length images \<Longrightarrow>
      make_image env cfg (map getHead images) (map attribute_string images) data3 i
        = Inr (imagesOut ! i)"
    by (simp_all add: n)
  have "\<forall>i<length images. imagesOut ! i =
               derived_image env cfg (shape data3) (images ! i)"
    using make_image_Inr [OF load wf conv _ each] by blast
  moreover from res have "out = (if sendoriginal cfg \<and> caller \<noteq> ''process_raw''
                   then map (mark_original env) images @ imagesOut else imagesOut)"
    and "grp = (if sendoriginal cfg \<and> caller \<noteq> ''process_raw''
                   then map (mark_original env) images else images)"
    by (auto simp: prepend_originals_eq split: if_splits)
  ultimately show ?thesis using len by blast
qed

lemma traverse_returns:
  "(\<And>x. x \<in> set xs \<Longrightarrow> \<exists>y. f x = Inr y) \<Longrightarrow> \<exists>ys. traverse f xs = Inr ys"
proof (induction xs)
  case Nil
  then show ?case by simp
next
  case (Cons x xs)
  from Cons.prems obtain y where "f x = Inr y" by auto
  moreover from Cons obtain ys where "traverse f xs = Inr ys" by auto
  ultimately show ?case by simp
qed

lemma sort_34012: "sort [3, 4, 0, 1, 2 :: nat] = [0, 1, 2, 3, 4]"
  by simp

lemma upt_5: "[0..<5] = [0, 1, 2, 3, 4 :: nat]"
  by (simp add: upt_rec)

lemma load_data_returns:
  assumes "images \<noteq> []" and "\<forall>img \<in> set images. shape (data img) = [C, Z, Y, X]"
  shows "\<exists>data1. load_data images = Inr data1"
proof -
  from assms(1) obtain a rest where im: "images = a # rest" by (cases images) auto
  have "list_all (\<lambda>b. shape b = shape (data a)) (map data images)"
    using assms(2) im by (simp add: list_all_iff)
  then obtain data0 where st: "stack (map data images) = Inr data0"
    and sh: "shape data0 = length images # shape (data a)"
    by (simp add: stack_def im)
  have "length (shape data0) = 5"
    using sh assms(2) im by simp
  then have "sort [3, 4, 0, 1, 2 :: nat] = [0..<length (shape data0)]"
    by (simp only: sort_34012 upt_5)
  then show ?thesis
    by (simp add: load_data_def st transpose_nd_def)
qed

lemma load_data_dtype:
  assumes "load_data images = Inr data1"
  shows "dtype data1 = result_type (map (\<lambda>img. dtype (data img)) images)"
proof -
  from assms obtain data0 where st: "stack (map data images) = Inr data0"
    and tr: "transpose_nd [3, 4, 0, 1, 2] data0 = Inr data1"
    by (auto simp: load_data_def and_then_eq_Inr)
  from st have "dtype data0 = result_type (map dtype (map data images))"
    by (cases "map data images") (auto simp: stack_def split: if_splits)
  moreover from transpose_nd_Inr(2) [OF tr] have "dtype data1 = dtype data0"
    by (simp add: array_of_def)
  ultimately show ?thesis by (simp add: comp_def)
qed

lemma convert_returns:
  assumes "load_data images = Inr data1" and "\<forall>img \<in> set images. well_formed (data img)"
  shows "\<exists>data3. convert env data1 = Inr data3"
proof -
  from assms obtain dt C Z Y X where
    "data1 = array_of dt [Y, X, length images, C, Z]
               (\<lambda>idx. item (data (images ! (idx ! 2))) [idx ! 3, idx ! 4, idx ! 0, idx ! 1])"
    by (rule load_data_Inr)
  then have "length (shape data1) = 5" by (simp add: array_of_def)
  moreover have "sort [0, 1, 4, 3, 2 :: nat] = [0, 1, 2, 3, 4]" by simp
  ultimately have "sort [0, 1, 4, 3, 2 :: nat] = [0..<length (shape data1)]"
    by (simp only: upt_5)
  then show ?thesis
    by (simp add: convert_def transpose_nd_def)
qed

lemma finish_returns:
  assumes load: "load_data images = Inr data1"
    and wf: "\<forall>img \<in> set images. well_formed (data img)"
    and mini: "\<forall>img \<in> set images. series_end env (attribute_string img) = Inr ()"
  shows "\<exists>out grp. finish env caller cfg images data1 = Inr (out, grp)"
proof -
  from convert_returns [OF load wf] obtain data3 where conv: "convert env data1 = Inr data3"
    by blast
  have n: "last (shape data3) = length images"
    by (rule derived_array(2) [OF load wf conv])
  have "\<exists>img. make_image env cfg (map getHead images) (map attribute_string images) data3 i = Inr img"
    if "i \<in> set [0..<last (shape data3)]" for i
  proof -
    from that n have i: "i < length images" by simp
    from derived_array(3) [OF load wf conv i] obtain plane arr where
      pl: "index_last data3 i = Inr plane" and ar: "transpose_nd [3, 2, 0, 1] plane = Inr arr"
      and len: "length (shape arr) = 4" and arr: "arr = to_int16 (numpy env) (data (images ! i))"
      by blast
    have dt: "dtype arr = int16"
      by (simp add: arr to_int16_eq)
    have heads: "getitem (map getHead images) i = Inr (head (images ! i))"
      and metas: "getitem (map attribute_string images) i = Inr (attribute_string (images ! i))"
      using i by (simp_all add: getitem_def getHead_def)
    have "series_end env (attribute_string (images ! i)) = Inr ()"
      using mini i by simp
    then show ?thesis
      unfolding make_image_def pl ar from_array_int16 [OF dt len] heads metas and_then_Inr
      by (simp add: Let_def)
  qed
  then obtain imagesOut where
    "traverse (make_image env cfg (map getHead images) (map attribute_string images) data3)
       [0..<last (shape data3)] = Inr imagesOut"
    using traverse_returns by blast
  then show ?thesis
    by (simp add: finish_def conv)
qed

lemma process_image_returns:
  assumes "accepted env mrdHeader images w"
  shows "\<exists>out grp w'. process_image env caller cfg mrdHeader images w = (Inr (out, grp), w')"
proof -
  from assms have ne: "images \<noteq> []"
    and all: "\<forall>img \<in> set images. length (shape (data img)) = 4
                \<and> shape (data img) = shape (data (hd images)) \<and> well_formed (data img)
                \<and> series_end env (attribute_string img) = Inr ()"
    and vox: "voxel_sizes mrdHeader = Inr ()"
    and dbg: "path_exists w debugFolder \<or> list_all (\<lambda>q. files w q = None) (prefixes debugFolder)"
    and dir: "butlast nifti_path \<in> dirs w" "nifti_path \<notin> dirs w"
    and rt: "result_type (map (\<lambda>img. dtype (data img)) images) \<noteq> int64"
    and par: "\<forall>q \<in> set (prefixes (butlast nifti_path)). files w q = None"
    unfolding accepted_def list_all_iff by blast+
  have hd: "hd images \<in> set images" using ne by simp
  from all hd have "length (shape (data (hd images))) = 4" by blast
  then obtain C Z Y X where s0: "shape (data (hd images)) = [C, Z, Y, X]" by (rule length4E)
  have shapes: "\<forall>img \<in> set images. shape (data img) = [C, Z, Y, X]"
  proof
    fix img assume "img \<in> set images"
    with all have "shape (data img) = shape (data (hd images))" by blast
    then show "shape (data img) = [C, Z, Y, X]" by (simp only: s0)
  qed
  from load_data_returns [OF ne shapes] obtain data1 where load: "load_data images = Inr data1"
    by blast
  have wf: "\<forall>img \<in> set images. well_formed (data img)" using all by blast
  have mini: "\<forall>img \<in> set images. series_end env (attribute_string img) = Inr ()"
    using all by blast
  from mini hd have "series_end env (attribute_string (hd images)) = Inr ()" by blast
  then have "decode_minihead env (attribute_string (hd images)) = Inr ()"
    by (simp add: decode_minihead_def series_end_def)
  moreover have "sequence_parameters mrdHeader = Inr ()"
    using vox by (cases mrdHeader) (simp_all add: sequence_parameters_def voxel_sizes_def)
  ultimately have prep: "prepare env mrdHeader images = Inr data1"
    by (simp add: prepare_def load vox)
  define r where "r = (if \<not> path_exists w debugFolder then makedirs w debugFolder else Inr w)"
  have np: "nifti_path \<notin> set (prefixes debugFolder)"
    by (simp add: nifti_path_def debugFolder_def)
  have "\<exists>w1. r = Inr w1 \<and> butlast nifti_path \<in> dirs w1 \<and> nifti_path \<notin> dirs w1
          \<and> files w1 = files w"
  proof (cases "path_exists w debugFolder")
    case True
    then show ?thesis using dir by (simp add: r_def)
  next
    case False
    with dbg have "list_all (\<lambda>q. files w q = None) (prefixes debugFolder)" by simp
    then have "\<not> list_ex (\<lambda>q. files w q \<noteq> None) (prefixes debugFolder)"
      by (simp add: list_ex_iff list_all_iff)
    then have "r = Inr (w\<lparr>dirs := dirs w \<union> set (prefixes debugFolder)\<rparr>)"
      using False by (simp add: r_def makedirs_def)
    then show ?thesis using dir np by simp
  qed
  then obtain w1 where mk: "r = Inr w1"
    and d1: "butlast nifti_path \<in> dirs w1" "nifti_path \<notin> dirs w1"
    and f1: "files w1 = files w"
    by blast
  have "dtype data1 \<noteq> int64"
    using rt by (simp add: load_data_dtype [OF load])
  moreover have "\<not> list_ex (\<lambda>q. files w1 q \<noteq> None) (prefixes (butlast nifti_path))"
    using par by (simp add: list_ex_iff f1)
  moreover have "nifti_path \<noteq> []"
    by (simp add: nifti_path_def)
  ultimately have sv: "nib_save data1 nifti_path w1 = Inr (w1\<lparr>files := (files w1)(nifti_path \<mapsto> data1)\<rparr>)"
    using d1 by (simp add: nib_save_def is_dir_def)
  from finish_returns [OF load wf mini] obtain out grp where
    fin: "finish env caller cfg images data1 = Inr (out, grp)"
    by blast
  have "process_image env caller cfg mrdHeader images w =
          (case r of
             Inl e \<Rightarrow> (Inl e, w)
           | Inr w1 \<Rightarrow>
               (case prepare env mrdHeader images of
                  Inl e \<Rightarrow> (Inl e, w1)
                | Inr data1 \<Rightarrow>
                    (case nib_save data1 nifti_path w1 of
                       Inl e \<Rightarrow> (Inl e, w1)
                     | Inr w2 \<Rightarrow> (finish env caller cfg images data1, w2))))"
    using ne unfolding process_image_def r_def by simp
  then show ?thesis
    by (simp add: mk prep sv fin)
qed

lemma process_image_Inr:
  assumes res: "process_image env caller cfg mrdHeader images w = (Inr (out, grp), w')"
    and ne: "images \<noteq> []"
    and wf: "\<forall>img \<in> set images. well_formed (data img)"
  shows "\<exists>derived dshape.
           length derived = length images
         \<and> out = (if sendoriginal cfg \<and> caller \<noteq> ''process_raw''
                   then map (mark_original env) images @ derived else derived)
         \<and> grp = (if sendoriginal cfg \<and> caller \<noteq> ''process_raw''
                   then map (mark_original env) images else images)
         \<and> (\<forall>i<length images. derived ! i =
               derived_image env cfg dshape (images ! i))"
proof -
  from res ne obtain data1 where prep: "prepare env mrdHeader images = Inr data1"
    and fin: "finish env caller cfg images data1 = Inr (out, grp)"
    by (auto simp: process_image_def split: sum.splits if_splits)
  from prep have load: "load_data images = Inr data1"
    by (auto simp: prepare_def and_then_eq_Inr)
  from finish_Inr [OF fin load wf] show ?thesis .
qed

subsection \<open>Files and subprocesses\<close>

lemma makedirs_frame:
  "makedirs w p = Inr w1 \<Longrightarrow>
     subprocesses w1 = subprocesses w \<and> files w1 = files w \<and> dirs w1 = dirs w \<union> set (prefixes p)"
  by (auto simp: makedirs_def split: if_splits)

lemma nib_save_frame:
  "nib_save a p w1 = Inr w2 \<Longrightarrow>
     subprocesses w2 = subprocesses w1 \<and> dirs w2 = dirs w1 \<and> files w2 = (files w1)(p \<mapsto> a)"
  by (auto simp: nib_save_def split: if_splits)

lemma process_image_cases:
  assumes "images \<noteq> []"
  obtains
    (no_folder) e where "process_image env caller cfg mrdHeader images w = (Inl e, w)"
  | (no_file) e w1 where "process_image env caller cfg mrdHeader images w = (Inl e, w1)"
      "w1 = w \<or> makedirs w debugFolder = Inr w1"
  | (written) data1 w1 w2 where
      "process_image env caller cfg mrdHeader images w = (finish env caller cfg images data1, w2)"
      "w1 = w \<or> makedirs w debugFolder = Inr w1"
      "prepare env mrdHeader images = Inr data1"
      "nib_save data1 nifti_path w1 = Inr w2"
proof -
  define r where "r = (if \<not> path_exists w debugFolder then makedirs w debugFolder else Inr w)"
  have pi: "process_image env caller cfg mrdHeader images w =
          (case r of
             Inl e \<Rightarrow> (Inl e, w)
           | Inr w1 \<Rightarrow>
               (case prepare env mrdHeader images of
                  Inl e \<Rightarrow> (Inl e, w1)
                | Inr data1 \<Rightarrow>
                    (case nib_save data1 nifti_path w1 of
                       Inl e \<Rightarrow> (Inl e, w1)
                     | Inr w2 \<Rightarrow> (finish env caller cfg images data1, w2))))"
    using assms unfolding process_image_def r_def by simp
  show ?thesis
  proof (cases r)
    case (Inl e)
    with pi show ?thesis by (intro no_folder [of e]) simp
  next
    case (Inr w1)
    then have w1: "w1 = w \<or> makedirs w debugFolder = Inr w1"
      by (auto simp: r_def split: if_splits)
    show ?thesis
    proof (cases "prepare env mrdHeader images")
      case (Inl e)
      with pi Inr w1 show ?thesis by (intro no_file [of e w1]) simp_all
    next
      case prep: (Inr data1)
      show ?thesis
      proof (cases "nib_save data1 nifti_path w1")
        case (Inl e)
        with pi Inr prep w1 show ?thesis by (intro no_file [of e w1]) simp_all
      next
        case sv: (Inr w2)
        with pi Inr prep w1 show ?thesis by (intro written [of data1 w2 w1]) simp_all
      qed
    qed
  qed
qed

lemma process_image_empty: "process_image env caller cfg mrdHeader [] w = (Inr ([], []), w)"
  by (simp add: process_image_def)

lemma process_image_frame:
  assumes w'_def: "w' = snd (process_image env caller cfg mrdHeader images w)"
  shows "subprocesses w' = subprocesses w"
    and "p \<noteq> nifti_path \<Longrightarrow> files w' p = files w p"
    and "dirs w \<subseteq> dirs w'" and "dirs w' \<subseteq> dirs w \<union> set (prefixes debugFolder)"
proof -
  have "subprocesses w' = subprocesses w \<and> (p \<noteq> nifti_path \<longrightarrow> files w' p = files w p)
        \<and> dirs w \<subseteq> dirs w' \<and> dirs w' \<subseteq> dirs w \<union> set (prefixes debugFolder)"
  proof (cases "images = []")
    case True
    then show ?thesis by (simp add: w'_def process_image_empty)
  next
    case False
    then show ?thesis
    proof (cases rule: process_image_cases [of images env caller cfg mrdHeader w])
      case (no_folder e)
      then show ?thesis by (simp add: w'_def)
    next
      case (no_file e w1)
      then show ?thesis using makedirs_frame [of w debugFolder w1]
        by (auto simp: w'_def)
    next
      case (written data1 w1 w2)
      then show ?thesis
        using makedirs_frame [of w debugFolder w1] nib_save_frame [of data1 nifti_path w1 w2]
        by (auto simp: w'_def)
    qed
  qed
  then show "subprocesses w' = subprocesses w"
    and "p \<noteq> nifti_path \<Longrightarrow> files w' p = files w p"
    and "dirs w \<subseteq> dirs w'" and "dirs w' \<subseteq> dirs w \<union> set (prefixes debugFolder)"
    by blast+
qed

lemma process_image_writes:
  assumes "process_image env caller cfg mrdHeader images w = (Inr (out, grp), w')"
    and "images \<noteq> []"
  shows "\<exists>data1. load_data images = Inr data1 \<and> files w' nifti_path = Some data1"
  using assms(2)
proof (cases rule: process_image_cases [of images env caller cfg mrdHeader w])
  case (no_folder e)
  with assms(1) show ?thesis by simp
next
  case (no_file e w1)
  with assms(1) show ?thesis by simp
next
  case (written data1 w1 w2)
  from written(3) have "load_data images = Inr data1"
    by (auto simp: prepare_def and_then_eq_Inr)
  moreover from written(1) assms(1) have "w' = w2" by simp
  ultimately show ?thesis
    using nib_save_frame [OF written(4)] by simp
qed

subsection \<open>Meta attributes and the concrete instance\<close>

lemma str_nat_4096: "str_nat 4096 = ''4096''"
  by (simp add: str_nat.simps)

lemma str_half_4096: "str_half 4096 = ''2048.0''"
  by (simp add: str_half_def str_nat.simps)

lemma maxVal_eq: "maxVal + 1 = 4096" "Suc maxVal = 4096"
  by (simp_all add: maxVal_def BitsStored_def)

lemma floor_halves: "\<lfloor>1 / 2 :: rat\<rfloor> = 0" "\<lfloor>3 / 2 :: rat\<rfloor> = 1"
  using floor_divide_of_int_eq [of 1 2, where ?'a = rat]
    floor_divide_of_int_eq [of 3 2, where ?'a = rat] by simp_all

lemma options_meta_other:
  "k \<noteq> ''ROI_example'' \<Longrightarrow> k \<noteq> ''LUTFileName'' \<Longrightarrow> options_meta env cfg sh t k = t k"
  by (simp add: options_meta_def Let_def)

lemma directions_meta_other:
  "k \<noteq> ''ImageRowDir'' \<Longrightarrow> k \<noteq> ''ImageColumnDir'' \<Longrightarrow> directions_meta env hdr t k = t k"
  by (simp add: directions_meta_def Let_def split: prod.splits)

lemma derived_meta_other:
  assumes "k \<noteq> ''ROI_example''" "k \<noteq> ''LUTFileName''" "k \<noteq> ''ImageRowDir''"
    "k \<noteq> ''ImageColumnDir''"
  shows "derived_meta env cfg sh hdr m k = fixed_meta m k"
  using assms by (simp add: derived_meta_def options_meta_other directions_meta_other)

lemma derived_meta_fixed:
  "derived_meta env cfg sh hdr m ''DataRole'' = Some (MetaStr ''Image'')"
  "derived_meta env cfg sh hdr m ''ImageProcessingHistory'' = Some (MetaList [''PYTHON'', ''AFIB1''])"
  "derived_meta env cfg sh hdr m ''WindowCenter'' = Some (MetaStr ''2048.0'')"
  "derived_meta env cfg sh hdr m ''WindowWidth'' = Some (MetaStr ''4096'')"
  "derived_meta env cfg sh hdr m ''Keep_image_geometry'' = Some (MetaInt 1)"
  by (simp_all add: derived_meta_other fixed_meta_def maxVal_eq str_nat_4096 str_half_4096)

lemma example_accepted:
  "accepted test_env example_mrd_header [example_image] example_world"
  by (simp add: accepted_def example_image_def well_formed_def series_end_def
      voxel_sizes_def example_mrd_header_def path_exists_def is_dir_def example_world_def
      debugFolder_def nifti_path_def result_type_def)

lemma example_to_int16:
  "to_int16 numpy_rat (data example_image) = \<lparr>dtype = int16, shape = [1, 1, 1, 2], elems = [0, 2]\<rparr>"
  by (simp add: to_int16_eq example_image_def numpy_rat_def round_half_even_def cast_int_def wrap_int_def Let_def floor_halves)

subsection \<open>The images returned\<close>

lemma example_returns:
  "\<exists>out grp w'. process_image test_env caller cfg example_mrd_header [example_image] example_world
      = (Inr (out, grp), w')"
  using example_accepted by (rule process_image_returns)

lemma example_well_formed: "\<forall>img \<in> set [example_image]. well_formed (data img)"
  by (simp add: example_image_def well_formed_def)

lemma images_of_Inr: "r = (Inr (out, grp), w') \<Longrightarrow> images_of r = out"
  by (simp add: images_of_def)

lemma derived_nth:
  assumes res: "process_image env caller cfg mrdHeader images w = (Inr (out, grp), w')"
    and ne: "images \<noteq> []"
    and wf: "\<forall>img \<in> set images. well_formed (data img)"
    and i: "i < length images"
  shows "\<exists>dshape. out ! (first_derived cfg caller (length images) + i) =
           derived_image env cfg dshape (images ! i)"
proof -
  from process_image_Inr [OF res ne wf] obtain derived dshape where
    len: "length derived = length images"
    and out: "out = (if sendoriginal cfg \<and> caller \<noteq> ''process_raw''
                   then map (mark_original env) images @ derived else derived)"
    and each: "\<forall>i<length images. derived ! i =
               derived_image env cfg dshape (images ! i)"
    by blast
  have "out ! (first_derived cfg caller (length images) + i) = derived ! i"
    by (simp add: out first_derived_def nth_append)
  with each i show ?thesis by auto
qed

lemma example_sendoriginal:
  "\<exists>derived. length derived = 1 \<and>
     images_of (process_image test_env ''process'' sendoriginal_config example_mrd_header
        [example_image] example_world) = [mark_original test_env example_image] @ derived"
proof -
  from example_returns obtain out grp w' where
    res: "process_image test_env ''process'' sendoriginal_config example_mrd_header [example_image]
       example_world = (Inr (out, grp), w')"
    by blast
  from process_image_Inr [OF res _ example_well_formed] obtain derived where
    "length derived = 1" "out = [mark_original test_env example_image] @ derived"
    by (auto simp: sendoriginal_config_def)
  with images_of_Inr [OF res] show ?thesis by auto
qed

subsection \<open>\<open>process\<close>\<close>

lemma process_item_frame:
  "world (state_of (process_item cfg mrdHeader it st)) = world st
   \<and> count_list (sent (state_of (process_item cfg mrdHeader it st))) SendClose
       = count_list (sent st) SendClose"
  by (cases it) (simp_all add: process_item_def Let_def split: sum.splits)

lemma receive_frame:
  "receive cfg mrdHeader items st = (r, st') \<Longrightarrow>
     world st' = world st \<and> count_list (sent st') SendClose = count_list (sent st) SendClose"
proof (induction items arbitrary: st)
  case Nil
  then show ?case by simp
next
  case (Cons it rest)
  show ?case
  proof (cases "process_item cfg mrdHeader it st")
    case (Continue s)
    with Cons.prems have "receive cfg mrdHeader rest s = (r, st')" by simp
    from Cons.IH [OF this] process_item_frame [of cfg mrdHeader it st] Continue
    show ?thesis by simp
  next
    case (Break s)
    with Cons.prems process_item_frame [of cfg mrdHeader it st] show ?thesis by auto
  next
    case (Raise e s)
    with Cons.prems process_item_frame [of cfg mrdHeader it st] show ?thesis by auto
  qed
qed

lemma remaining_raw_frame:
  "remaining_raw cfg mrdHeader st = (r, st') \<Longrightarrow>
     world st' = world st \<and> count_list (sent st') SendClose = count_list (sent st) SendClose"
  by (auto simp: remaining_raw_def split: if_splits sum.splits)

lemma remaining_images_frame:
  "remaining_images env cfg mrdHeader st = (r, st') \<Longrightarrow>
     (world st' = world st
        \<or> world st' = snd (process_image env ''process'' cfg mrdHeader (imgGroup st) (world st)))
     \<and> count_list (sent st') SendClose = count_list (sent st) SendClose"
  by (auto simp: remaining_images_def split: if_splits sum.splits prod.splits)

lemma try_body_frame:
  assumes "try_body env cfg mrdHeader connection st0 = (r, st)"
  shows "count_list (sent st) SendClose = count_list (sent st0) SendClose"
    and "world st = world st0
         \<or> (\<exists>images. world st = snd (process_image env ''process'' cfg mrdHeader images (world st0)))"
proof -
  obtain r1 st1 where rc: "receive cfg mrdHeader connection st0 = (r1, st1)"
    by (cases "receive cfg mrdHeader connection st0") auto
  note f1 = receive_frame [OF rc]
  have "count_list (sent st) SendClose = count_list (sent st0) SendClose
      \<and> (world st = world st0
         \<or> (\<exists>images. world st = snd (process_image env ''process'' cfg mrdHeader images (world st0))))"
  proof (cases r1)
    case (Some e)
    with assms rc f1 show ?thesis by (simp add: try_body_def)
  next
    case None
    show ?thesis
    proof (cases "extract_ecg (waveformGroup st1)")
      case (Inl e)
      with assms rc None f1 show ?thesis by (simp add: try_body_def)
    next
      case (Inr u)
      obtain r2 st2 where rr: "remaining_raw cfg mrdHeader st1 = (r2, st2)"
        by (cases "remaining_raw cfg mrdHeader st1") auto
      note f2 = remaining_raw_frame [OF rr]
      show ?thesis
      proof (cases r2)
        case (Some e)
        with assms rc None Inr rr f1 f2 show ?thesis by (simp add: try_body_def)
      next
        case n2: None
        with assms rc None Inr rr have "remaining_images env cfg mrdHeader st2 = (r, st)"
          by (simp add: try_body_def)
        from remaining_images_frame [OF this] f1 f2 show ?thesis by auto
      qed
    qed
  qed
  then show "count_list (sent st) SendClose = count_list (sent st0) SendClose"
    and "world st = world st0
         \<or> (\<exists>images. world st = snd (process_image env ''process'' cfg mrdHeader images (world st0)))"
    by blast+
qed

lemma process_eq:
  assumes "try_body env cfg mrdHeader connection (initial_state w) = (r, st)"
  shows "sent (process env connection cfg mrdHeader w)
           = sent st @ (case r of None \<Rightarrow> [] | Some e \<Rightarrow> [SendLogging MRD_LOGGING_ERROR e])
               @ [SendClose]"
    and "world (process env connection cfg mrdHeader w) = world st"
  using assms by (simp_all add: process_def split: option.splits)

lemma receive_eq:
  "receive cfg mrdHeader items st =
     (if ends_slice items then Some (NameError ''process_raw'') else None,
      st\<lparr>acqGroup := acqGroup st @ acquisitions_in (consumed items),
         imgGroup := imgGroup st @ images_in (consumed items),
         waveformGroup := waveformGroup st @ waveforms_in (consumed items)\<rparr>)"
proof (induction items arbitrary: st)
  case Nil
  show ?case by simp
next
  case (Cons it rest)
  show ?case
  proof (cases it)
    case (AcquisitionItem acq)
    show ?thesis
      unfolding AcquisitionItem
      by (simp add: process_item_def process_raw_def imaging_def Let_def Cons.IH)
  next
    case (ImageItem img)
    show ?thesis unfolding ImageItem by (simp add: process_item_def Cons.IH)
  next
    case (WaveformItem wav)
    show ?thesis unfolding WaveformItem by (simp add: process_item_def Cons.IH)
  next
    case NoneItem
    show ?thesis unfolding NoneItem by (simp add: process_item_def)
  next
    case (OtherItem n)
    show ?thesis unfolding OtherItem by (simp add: process_item_def Cons.IH)
  qed
qed

lemma world_process_eq:
  "world (process env connection cfg mrdHeader w) =
     (if ends_slice connection
         \<or> extract_ecg (waveforms_in (consumed connection)) \<noteq> Inr ()
         \<or> acquisitions_in (consumed connection) \<noteq> []
      then w
      else snd (process_image env ''process'' cfg mrdHeader (images_in (consumed connection)) w))"
  by (auto simp: process_def try_body_def receive_eq initial_state_def remaining_raw_def
      process_raw_def remaining_images_def process_image_empty
      split: sum.splits prod.splits option.splits)

subsection \<open>The files and directories a call leaves\<close>

lemma process_image_world:
  "snd (process_image env caller cfg mrdHeader images w) =
     (if images = [] then w
      else if \<not> path_exists w debugFolder
              \<and> list_ex (\<lambda>q. files w q \<noteq> None) (prefixes debugFolder) then w
      else
        let w1 = (if path_exists w debugFolder then w
                  else w\<lparr>dirs := dirs w \<union> set (prefixes debugFolder)\<rparr>)
        in case prepare env mrdHeader images of
             Inl e \<Rightarrow> w1
           | Inr data1 \<Rightarrow>
               if dtype data1 \<noteq> int64
                  \<and> \<not> list_ex (\<lambda>q. files w q \<noteq> None) (prefixes (butlast nifti_path))
                  \<and> is_dir w1 (butlast nifti_path) \<and> \<not> is_dir w1 nifti_path
               then w1\<lparr>files := (files w)(nifti_path \<mapsto> data1)\<rparr>
               else w1)"
  by (simp add: process_image_def makedirs_def nib_save_def Let_def split: sum.splits)

lemma prepare_load: "prepare env mrdHeader images = Inr data1 \<Longrightarrow> load_data images = Inr data1"
  by (auto simp: prepare_def and_then_eq_Inr)

lemma mark_original_sel:
  "head (mark_original env img)
     = (head img)\<lparr>image_series_index := 99,
                  attribute_string_len :=
                    of_nat (serialized_len env (attribute_string (mark_original env img)))\<rparr>"
  "attribute_string (mark_original env img)
     = (attribute_string img)(''Keep_image_geometry'' \<mapsto> MetaInt 1)"
  "data (mark_original env img) = data img"
  by (simp_all add: mark_original_def set_attribute_string_def)

lemma example_prepare:
  "\<exists>data1. prepare test_env example_mrd_header [example_image] = Inr data1
      \<and> load_data [example_image] = Inr data1 \<and> dtype data1 = float32"
proof -
  from example_returns [of "''process''" default_config] obtain out grp w' where
    res: "process_image test_env ''process'' default_config example_mrd_header [example_image]
       example_world = (Inr (out, grp), w')"
    by blast
  have "[example_image] \<noteq> []" by simp
  then show ?thesis
  proof (cases rule: process_image_cases [of "[example_image]" test_env "''process''"
        default_config example_mrd_header example_world])
    case (no_folder e)
    with res show ?thesis by simp
  next
    case (no_file e w1)
    with res show ?thesis by simp
  next
    case (written data1 w1 w2)
    from prepare_load [OF written(3)] have load: "load_data [example_image] = Inr data1" .
    from load_data_dtype [OF load] have "dtype data1 = float32"
      by (simp add: result_type_def example_image_def)
    with written(3) load show ?thesis by simp
  qed
qed

section \<open>Claims\<close>

text \<open>
  C1, as the spec has it, fails when \<open>sendoriginal\<close> is set: the first image returned is
  then the first original, whose data is still 0.5 and 1.5, not the rounded 0 and 2.
\<close>

theorem first_output_not_converted:
  "length (images_of (process_image test_env ''process'' sendoriginal_config example_mrd_header
        [example_image] example_world)) = 2
   \<and> elems (data (images_of (process_image test_env ''process'' sendoriginal_config
        example_mrd_header [example_image] example_world) ! 0)) = [1 / 2, 3 / 2]
   \<and> elems (to_int16 (numpy test_env) (data ([example_image] ! 0))) = [0, 2]"
proof -
  from example_sendoriginal obtain derived where "length derived = 1"
    and "images_of (process_image test_env ''process'' sendoriginal_config example_mrd_header
        [example_image] example_world) = [mark_original test_env example_image] @ derived"
    by blast
  then show ?thesis
    by (simp add: mark_original_sel example_image_def test_env_def
        example_to_int16 [unfolded example_image_def, simplified])
qed

text \<open>
  C1, amended. When \<open>process_image\<close> returns for a non-empty group, the data of the
  derived image of input \<open>i\<close> is the data of input \<open>i\<close> converted to float64, rounded and
  cast to int16: the same shape, the same elements in the same order, each converted.
  No other computation touches the pixels. The derived image of input \<open>i\<close> is at index
  \<open>i\<close>, or at \<open>len(imgGroup) + i\<close> when the originals are put in front.
\<close>

theorem process_image_pixel_data:
  assumes "process_image env caller cfg mrdHeader images w = (Inr (out, grp), w')"
    and "images \<noteq> []"
    and "\<forall>img \<in> set images. well_formed (data img)"
    and "i < length images"
  shows "data (out ! (first_derived cfg caller (length images) + i)) =
           \<lparr>dtype = int16, shape = shape (data (images ! i)),
            elems = map (\<lambda>v. astype_scalar (numpy env) int16
                              (around_scalar (numpy env) (astype_scalar (numpy env) float64 v)))
                      (elems (data (images ! i)))\<rparr>"
  using derived_nth [OF assms] by (auto simp: to_int16_eq derived_image_sel)

theorem process_image_pixel_data_witness:
  "\<exists>out grp w'.
     process_image test_env ''process'' sendoriginal_config example_mrd_header [example_image]
       example_world = (Inr (out, grp), w')
     \<and> data (out ! 1) = \<lparr>dtype = int16, shape = [1, 1, 1, 2], elems = [0, 2]\<rparr>"
proof -
  from example_returns obtain out grp w' where
    res: "process_image test_env ''process'' sendoriginal_config example_mrd_header [example_image]
       example_world = (Inr (out, grp), w')"
    by blast
  have "data (out ! (first_derived sendoriginal_config ''process'' (length [example_image]) + 0))
        = to_int16 (numpy test_env) (data ([example_image] ! 0))"
    using process_image_pixel_data [OF res _ example_well_formed, of 0]
    by (simp add: to_int16_eq)
  then have "data (out ! 1) = \<lparr>dtype = int16, shape = [1, 1, 1, 2], elems = [0, 2]\<rparr>"
    by (simp add: first_derived_def sendoriginal_config_def test_env_def example_to_int16)
  with res show ?thesis by blast
qed

text \<open>
  C2. The code does not do what the claim says: the call of \<open>process_raw\<close> raises
  NameError. A stream of one acquisition with ACQ_LAST_IN_SLICE (bit 7 of the flags), and
  a stream of one acquisition left in the group at the end, both end with the error sent
  as a logging message and the close; no image is sent.
\<close>

theorem process_last_in_slice_raises:
  "is_flag_set \<lparr>acq_flags = 128, scan_counter = 1\<rparr> ACQ_LAST_IN_SLICE
   \<and> sent (process env [AcquisitionItem \<lparr>acq_flags = 128, scan_counter = 1\<rparr>] cfg mrdHeader w)
       = [SendLogging MRD_LOGGING_ERROR (NameError ''process_raw''), SendClose]
   \<and> sent (process env [AcquisitionItem \<lparr>acq_flags = 0, scan_counter = 1\<rparr>] cfg mrdHeader w)
       = [SendLogging MRD_LOGGING_ERROR (NameError ''process_raw''), SendClose]"
  by (simp add: process_def try_body_def initial_state_def process_item_def is_flag_set_def
      ACQ_LAST_IN_SLICE_def ACQ_IS_NOISE_MEASUREMENT_def ACQ_IS_PARALLEL_CALIBRATION_def
      ACQ_IS_PHASECORR_DATA_def ACQ_IS_NAVIGATION_DATA_def process_raw_def extract_ecg_def
      remaining_raw_def Let_def)

text \<open>
  C3. The loop of \<open>process\<close> puts every item it gets to into one group by its type.
  Whatever the groups hold before, after the loop the acquisition group has grown by the
  acquisitions of the stream with none of the four flags set, the image group by its
  images and the waveform group by its waveforms, each in the order of the stream; items
  of another type change nothing. The items counted are those before the first \<open>None\<close>,
  which ends the loop, and up to the first acquisition with ACQ_LAST_IN_SLICE, which is
  appended like any other before the call of \<open>process_raw\<close> raises. \<open>process\<close> runs the
  loop from empty groups, and what it sends is determined by the three groups so filled.
\<close>

theorem receive_groups:
  "receive cfg mrdHeader connection st =
     (if ends_slice connection then Some (NameError ''process_raw'') else None,
      st\<lparr>acqGroup := acqGroup st @ acquisitions_in (consumed connection),
         imgGroup := imgGroup st @ images_in (consumed connection),
         waveformGroup := waveformGroup st @ waveforms_in (consumed connection)\<rparr>)
   \<and> sent (process env connection cfg mrdHeader w) =
       (if ends_slice connection
        then [SendLogging MRD_LOGGING_ERROR (NameError ''process_raw''), SendClose]
        else case extract_ecg (waveforms_in (consumed connection)) of
            Inl e \<Rightarrow> [SendLogging MRD_LOGGING_ERROR e, SendClose]
          | Inr u \<Rightarrow>
              if acquisitions_in (consumed connection) \<noteq> []
              then [SendLogging MRD_LOGGING_ERROR (NameError ''process_raw''), SendClose]
              else if images_in (consumed connection) = [] then [SendClose]
              else case fst (process_image env ''process'' cfg mrdHeader
                               (images_in (consumed connection)) w) of
                  Inl e \<Rightarrow> [SendLogging MRD_LOGGING_ERROR e, SendClose]
                | Inr (images, originals) \<Rightarrow> [SendImage images, SendClose])"
proof -
  have "sent (process env connection cfg mrdHeader w) =
       (if ends_slice connection
        then [SendLogging MRD_LOGGING_ERROR (NameError ''process_raw''), SendClose]
        else case extract_ecg (waveforms_in (consumed connection)) of
            Inl e \<Rightarrow> [SendLogging MRD_LOGGING_ERROR e, SendClose]
          | Inr u \<Rightarrow>
              if acquisitions_in (consumed connection) \<noteq> []
              then [SendLogging MRD_LOGGING_ERROR (NameError ''process_raw''), SendClose]
              else if images_in (consumed connection) = [] then [SendClose]
              else case fst (process_image env ''process'' cfg mrdHeader
                               (images_in (consumed connection)) w) of
                  Inl e \<Rightarrow> [SendLogging MRD_LOGGING_ERROR e, SendClose]
                | Inr (images, originals) \<Rightarrow> [SendImage images, SendClose])"
    by (simp add: process_def try_body_def receive_eq initial_state_def remaining_raw_def
        process_raw_def remaining_images_def split: sum.splits prod.splits)
  with receive_eq [of cfg mrdHeader connection st] show ?thesis by simp
qed

theorem receive_groups_witness:
  "receive default_config example_mrd_header example_connection (initial_state example_world) =
     (None,
      \<lparr>acqGroup = [\<lparr>acq_flags = 0, scan_counter = 1\<rparr>], imgGroup = [example_image],
       waveformGroup = [example_waveform], sent = [], world = example_world\<rparr>)
   \<and> sent (process test_env example_connection default_config example_mrd_header example_world)
       = [SendLogging MRD_LOGGING_ERROR (NameError ''process_raw''), SendClose]"
  using receive_groups [of default_config example_mrd_header example_connection
      "initial_state example_world" test_env example_world]
  by (simp add: example_connection_def initial_state_def imaging_def is_flag_set_def
      ACQ_LAST_IN_SLICE_def ACQ_IS_NOISE_MEASUREMENT_def ACQ_IS_PARALLEL_CALIBRATION_def
      ACQ_IS_PHASECORR_DATA_def ACQ_IS_NAVIGATION_DATA_def extract_ecg_def
      example_waveform_def)

text \<open>
  C4, as the spec has it, fails: a call of \<open>process_image\<close> on one image writes the
  file \<open>/buildhostdirectory/test.nii\<close>, which did not exist before.
\<close>

theorem process_image_writes_file:
  "files example_world nifti_path = None
   \<and> files (snd (process_image test_env ''process'' default_config example_mrd_header
        [example_image] example_world)) nifti_path \<noteq> None"
proof -
  from example_returns obtain out grp w' where
    res: "process_image test_env ''process'' default_config example_mrd_header [example_image]
       example_world = (Inr (out, grp), w')"
    by blast
  from process_image_writes [OF res] have "files w' nifti_path \<noteq> None" by auto
  with res show ?thesis by (simp add: example_world_def)
qed

text \<open>
  C4, amended. \<open>process_image\<close> does write to storage. On an empty group it changes
  nothing. On a non-empty group it creates the debug folder with its missing parents when
  the folder does not exist (and changes nothing when \<open>os.makedirs\<close> raises); no other
  directory appears and none is removed. When the lines up to 223 raise nothing and
  nibabel can write (the data is not int64, \<open>/buildhostdirectory\<close> is a directory and not
  below a file, \<open>test.nii\<close> is not a directory) it writes the stacked image data to
  \<open>/buildhostdirectory/test.nii\<close>, also when the lines after 243 raise; otherwise that
  file is as before. No other file ever changes. \<open>process\<close> changes the world only by
  its call of \<open>process_image\<close> on the images received, which it reaches when nothing
  before line 133 raises.
\<close>

theorem storage_effects:
  "(images = [] \<longrightarrow> snd (process_image env caller cfg mrdHeader images w) = w)
   \<and> (\<forall>p. p \<noteq> nifti_path \<longrightarrow> files (snd (process_image env caller cfg mrdHeader images w)) p = files w p)
   \<and> dirs (snd (process_image env caller cfg mrdHeader images w)) =
       (if images \<noteq> [] \<and> \<not> path_exists w debugFolder
           \<and> \<not> list_ex (\<lambda>q. files w q \<noteq> None) (prefixes debugFolder)
        then dirs w \<union> set (prefixes debugFolder) else dirs w)
   \<and> files (snd (process_image env caller cfg mrdHeader images w)) nifti_path =
       (if images \<noteq> []
           \<and> (path_exists w debugFolder
               \<or> \<not> list_ex (\<lambda>q. files w q \<noteq> None) (prefixes debugFolder))
        then case prepare env mrdHeader images of
               Inl e \<Rightarrow> files w nifti_path
             | Inr data1 \<Rightarrow>
                 if dtype data1 \<noteq> int64
                    \<and> \<not> list_ex (\<lambda>q. files w q \<noteq> None) (prefixes (butlast nifti_path))
                    \<and> is_dir (snd (process_image env caller cfg mrdHeader images w)) (butlast nifti_path)
                    \<and> \<not> is_dir (snd (process_image env caller cfg mrdHeader images w)) nifti_path
                 then Some data1 else files w nifti_path
        else files w nifti_path)
   \<and> (\<forall>data1. prepare env mrdHeader images = Inr data1 \<longrightarrow> load_data images = Inr data1)
   \<and> (\<forall>out grp. images \<noteq> [] \<and> fst (process_image env caller cfg mrdHeader images w) = Inr (out, grp)
         \<longrightarrow> (\<exists>data1. load_data images = Inr data1
               \<and> files (snd (process_image env caller cfg mrdHeader images w)) nifti_path = Some data1))
   \<and> world (process env connection cfg mrdHeader w) =
       (if ends_slice connection
           \<or> extract_ecg (waveforms_in (consumed connection)) \<noteq> Inr ()
           \<or> acquisitions_in (consumed connection) \<noteq> []
        then w
        else snd (process_image env ''process'' cfg mrdHeader
                    (images_in (consumed connection)) w))"
proof -
  let ?w' = "snd (process_image env caller cfg mrdHeader images w)"
  note pw = process_image_world [of env caller cfg mrdHeader images w]
  have a: "images = [] \<longrightarrow> ?w' = w"
    by (simp add: process_image_empty)
  have b: "\<forall>p. p \<noteq> nifti_path \<longrightarrow> files ?w' p = files w p"
    using process_image_frame(2) [OF refl, of _ env caller cfg mrdHeader images w] by blast
  have c: "dirs ?w' =
       (if images \<noteq> [] \<and> \<not> path_exists w debugFolder
           \<and> \<not> list_ex (\<lambda>q. files w q \<noteq> None) (prefixes debugFolder)
        then dirs w \<union> set (prefixes debugFolder) else dirs w)"
    unfolding pw by (simp add: Let_def split: sum.splits)
  have d: "files ?w' nifti_path =
       (if images \<noteq> []
           \<and> (path_exists w debugFolder
               \<or> \<not> list_ex (\<lambda>q. files w q \<noteq> None) (prefixes debugFolder))
        then case prepare env mrdHeader images of
               Inl e \<Rightarrow> files w nifti_path
             | Inr data1 \<Rightarrow>
                 if dtype data1 \<noteq> int64
                    \<and> \<not> list_ex (\<lambda>q. files w q \<noteq> None) (prefixes (butlast nifti_path))
                    \<and> is_dir ?w' (butlast nifti_path)
                    \<and> \<not> is_dir ?w' nifti_path
                 then Some data1 else files w nifti_path
        else files w nifti_path)"
    unfolding pw by (simp add: Let_def is_dir_def split: sum.splits)
  have e: "\<forall>data1. prepare env mrdHeader images = Inr data1 \<longrightarrow> load_data images = Inr data1"
    using prepare_load by blast
  have f: "\<forall>out grp. images \<noteq> [] \<and> fst (process_image env caller cfg mrdHeader images w) = Inr (out, grp)
         \<longrightarrow> (\<exists>data1. load_data images = Inr data1 \<and> files ?w' nifti_path = Some data1)"
  proof (intro allI impI, elim conjE)
    fix out grp
    assume ne: "images \<noteq> []"
      and r: "fst (process_image env caller cfg mrdHeader images w) = Inr (out, grp)"
    then have "process_image env caller cfg mrdHeader images w = (Inr (out, grp), ?w')"
      by (metis prod.collapse)
    from process_image_writes [OF this ne]
    show "\<exists>data1. load_data images = Inr data1 \<and> files ?w' nifti_path = Some data1" .
  qed
  note g = world_process_eq [of env connection cfg mrdHeader w]
  from a b c d e f g show ?thesis by blast
qed

theorem storage_effects_witness:
  "dirs (snd (process_image test_env ''process'' default_config example_mrd_header
        [example_image] example_world))
     = {[''buildhostdirectory''], [], [''tmp''], [''tmp'', ''share''], [''tmp'', ''share'', ''debug'']}
   \<and> files (snd (process_image test_env ''process'' default_config example_mrd_header
        [example_image] example_world)) debugFolder = None
   \<and> (\<exists>data1. load_data [example_image] = Inr data1
        \<and> files (snd (process_image test_env ''process'' default_config example_mrd_header
        [example_image] example_world)) nifti_path = Some data1)"
proof -
  note t = storage_effects [of "[example_image]" test_env "''process''" default_config
      example_mrd_header example_world]
  from t have "dirs (snd (process_image test_env ''process'' default_config example_mrd_header
        [example_image] example_world)) =
       (if [example_image] \<noteq> [] \<and> \<not> path_exists example_world debugFolder
           \<and> \<not> list_ex (\<lambda>q. files example_world q \<noteq> None) (prefixes debugFolder)
        then dirs example_world \<union> set (prefixes debugFolder) else dirs example_world)"
    by blast
  then have dirs: "dirs (snd (process_image test_env ''process'' default_config example_mrd_header
        [example_image] example_world))
     = {[''buildhostdirectory''], [], [''tmp''], [''tmp'', ''share''], [''tmp'', ''share'', ''debug'']}"
    by (auto simp: example_world_def path_exists_def is_dir_def debugFolder_def)
  have "debugFolder \<noteq> nifti_path" by (simp add: debugFolder_def nifti_path_def)
  with t have "files (snd (process_image test_env ''process'' default_config example_mrd_header
        [example_image] example_world)) debugFolder = files example_world debugFolder"
    by blast
  then have nofile: "files (snd (process_image test_env ''process'' default_config example_mrd_header
        [example_image] example_world)) debugFolder = None"
    by (simp add: example_world_def)
  from example_prepare obtain data1 where
    prep: "prepare test_env example_mrd_header [example_image] = Inr data1"
    and load: "load_data [example_image] = Inr data1" and dt: "dtype data1 = float32"
    by blast
  from t have "files (snd (process_image test_env ''process'' default_config example_mrd_header
        [example_image] example_world)) nifti_path =
       (if [example_image] \<noteq> []
           \<and> (path_exists example_world debugFolder
               \<or> \<not> list_ex (\<lambda>q. files example_world q \<noteq> None) (prefixes debugFolder))
        then case prepare test_env example_mrd_header [example_image] of
               Inl e \<Rightarrow> files example_world nifti_path
             | Inr data1 \<Rightarrow>
                 if dtype data1 \<noteq> int64
                    \<and> \<not> list_ex (\<lambda>q. files example_world q \<noteq> None) (prefixes (butlast nifti_path))
                    \<and> is_dir (snd (process_image test_env ''process'' default_config example_mrd_header
        [example_image] example_world)) (butlast nifti_path)
                    \<and> \<not> is_dir (snd (process_image test_env ''process'' default_config example_mrd_header
        [example_image] example_world)) nifti_path
                 then Some data1 else files example_world nifti_path
        else files example_world nifti_path)"
    by blast
  moreover have "\<not> list_ex (\<lambda>q. files example_world q \<noteq> None) (prefixes debugFolder)"
    "\<not> list_ex (\<lambda>q. files example_world q \<noteq> None) (prefixes (butlast nifti_path))"
    by (simp_all add: example_world_def list_ex_iff)
  moreover have "is_dir (snd (process_image test_env ''process'' default_config
        example_mrd_header [example_image] example_world)) (butlast nifti_path)"
    "\<not> is_dir (snd (process_image test_env ''process'' default_config
        example_mrd_header [example_image] example_world)) nifti_path"
    by (simp_all add: is_dir_def dirs nifti_path_def)
  ultimately have "files (snd (process_image test_env ''process'' default_config
        example_mrd_header [example_image] example_world)) nifti_path = Some data1"
    by (simp add: prep dt)
  with load dirs nofile show ?thesis by blast
qed

text \<open>
  C5. On no path does \<open>process_image\<close> run a subprocess: the commands run are the same
  after the call as before it, whatever the call returns or raises. The calls of the
  brain-extraction tool on lines 246 and 247 are comments.
\<close>

theorem process_image_runs_no_subprocess:
  "subprocesses (snd (process_image env caller cfg mrdHeader images w)) = subprocesses w"
  by (rule process_image_frame(1)) simp

text \<open>
  C6, as the spec has it, fails when \<open>sendoriginal\<close> is set: the first image returned is
  then the first original, whose header has series index 99 where the input had 1, and
  still the data type of the input.
\<close>

theorem first_output_header_changed:
  "length (images_of (process_image test_env ''process'' sendoriginal_config example_mrd_header
        [example_image] example_world)) = 2
   \<and> image_series_index (head (images_of (process_image test_env ''process'' sendoriginal_config
        example_mrd_header [example_image] example_world) ! 0)) = 99
   \<and> image_series_index (head ([example_image] ! 0)) = 1
   \<and> data_type (head (images_of (process_image test_env ''process'' sendoriginal_config
        example_mrd_header [example_image] example_world) ! 0)) = DATATYPE_FLOAT"
proof -
  from example_sendoriginal obtain derived where "length derived = 1"
    and "images_of (process_image test_env ''process'' sendoriginal_config example_mrd_header
        [example_image] example_world) = [mark_original test_env example_image] @ derived"
    by blast
  then show ?thesis
    by (simp add: mark_original_sel example_image_def example_header_def new_header_def)
qed

text \<open>
  C6, amended. When \<open>process_image\<close> returns for a non-empty group, the header of the
  derived image of input \<open>i\<close> is the header of input \<open>i\<close> with two fields changed:
  \<open>data_type\<close>, to the data type of the derived image, and \<open>attribute_string_len\<close>, to
  the length of the attribute string that line 387 assigns. The data type is always
  DATATYPE_SHORT, never complex, so \<open>image_type\<close> is never changed. The derived image
  of input \<open>i\<close> is at index \<open>i\<close>, or at \<open>len(imgGroup) + i\<close> when the originals are put
  in front.
\<close>

theorem process_image_header:
  assumes "process_image env caller cfg mrdHeader images w = (Inr (out, grp), w')"
    and "images \<noteq> []"
    and "\<forall>img \<in> set images. well_formed (data img)"
    and "i < length images"
  shows "head (out ! (first_derived cfg caller (length images) + i))
           = (head (images ! i))
               \<lparr>data_type := data_type (head (out ! (first_derived cfg caller (length images) + i))),
                attribute_string_len :=
                  of_nat (serialized_len env
                    (attribute_string (out ! (first_derived cfg caller (length images) + i))))\<rparr>
         \<and> data_type (head (out ! (first_derived cfg caller (length images) + i))) = DATATYPE_SHORT
         \<and> image_type (head (out ! (first_derived cfg caller (length images) + i)))
             = image_type (head (images ! i))"
proof -
  from derived_nth [OF assms] obtain dshape where
    "out ! (first_derived cfg caller (length images) + i)
       = derived_image env cfg dshape (images ! i)"
    by blast
  then show ?thesis
    by (simp add: derived_image_sel derived_header_def)
qed

theorem process_image_header_witness:
  "\<exists>out grp w'.
     process_image test_env ''process'' sendoriginal_config example_mrd_header [example_image]
       example_world = (Inr (out, grp), w')
     \<and> head (out ! 1) = example_header
         \<lparr>data_type := DATATYPE_SHORT,
          attribute_string_len := of_nat (length (meta_xml (attribute_string (out ! 1))))\<rparr>
     \<and> image_type (head (out ! 1)) = 1"
proof -
  from example_returns obtain out grp w' where
    res: "process_image test_env ''process'' sendoriginal_config example_mrd_header [example_image]
       example_world = (Inr (out, grp), w')"
    by blast
  have k: "first_derived sendoriginal_config ''process'' (length [example_image]) + 0 = 1"
    by (simp add: first_derived_def sendoriginal_config_def)
  have ne: "[example_image] \<noteq> []" and i0: "0 < length [example_image]"
    by simp_all
  note t = process_image_header [OF res ne example_well_formed i0, unfolded k]
  from t have dt: "data_type (head (out ! 1)) = DATATYPE_SHORT"
    and it: "image_type (head (out ! 1)) = image_type (head ([example_image] ! 0))"
    by blast+
  from t have "head (out ! 1) = (head ([example_image] ! 0))
      \<lparr>data_type := data_type (head (out ! 1)),
       attribute_string_len := of_nat (serialized_len test_env (attribute_string (out ! 1)))\<rparr>"
    by blast
  then have "head (out ! 1) = (head ([example_image] ! 0))
      \<lparr>data_type := DATATYPE_SHORT,
       attribute_string_len := of_nat (serialized_len test_env (attribute_string (out ! 1)))\<rparr>"
    by (simp only: dt)
  then have "head (out ! 1) = example_header
         \<lparr>data_type := DATATYPE_SHORT,
          attribute_string_len := of_nat (length (meta_xml (attribute_string (out ! 1))))\<rparr>"
    by (simp add: example_image_def test_env_def)
  moreover from it have "image_type (head (out ! 1)) = 1"
    by (simp add: example_image_def example_header_def)
  ultimately show ?thesis using res by blast
qed



text \<open>
  C8. Every call of \<open>process\<close> sends the close exactly once, as its last message. When
  an exception leaves the \<open>try\<close> block, the message before the close is a logging
  message of level MRD_LOGGING_ERROR carrying that exception's traceback.
\<close>

theorem process_closes_once:
  "count_list (sent (process env connection cfg mrdHeader w)) SendClose = 1
   \<and> last (sent (process env connection cfg mrdHeader w)) = SendClose
   \<and> sent (process env connection cfg mrdHeader w)
       = sent (snd (try_body env cfg mrdHeader connection (initial_state w)))
         @ (case fst (try_body env cfg mrdHeader connection (initial_state w)) of
              None \<Rightarrow> []
            | Some e \<Rightarrow> [SendLogging MRD_LOGGING_ERROR e])
         @ [SendClose]"
proof -
  obtain r st where tb: "try_body env cfg mrdHeader connection (initial_state w) = (r, st)"
    by (cases "try_body env cfg mrdHeader connection (initial_state w)") auto
  have "count_list (sent st) SendClose = 0"
    using try_body_frame(1) [OF tb] by (simp add: initial_state_def)
  with process_eq(1) [OF tb] tb show ?thesis
    by (simp split: option.splits)
qed

text \<open>
  C9. Called with an empty group, \<open>process_image\<close> returns the empty list at once: it
  builds no image, leaves the group and the world as they are, and sends nothing (it
  never uses the connection).
\<close>

theorem process_image_empty_group:
  "process_image env caller cfg mrdHeader [] w = (Inr ([], []), w)"
  by (simp add: process_image_def)

text \<open>
  C10. When \<open>process_image\<close> returns for a non-empty group, every derived image has
  the attributes DataRole = Image, ImageProcessingHistory = [PYTHON, AFIB1],
  Keep_image_geometry = 1, WindowCenter = 2048.0 and WindowWidth = 4096, whatever the
  MRD header and the configuration are.
\<close>

theorem process_image_meta:
  assumes "process_image env caller cfg mrdHeader images w = (Inr (out, grp), w')"
    and "images \<noteq> []"
    and "\<forall>img \<in> set images. well_formed (data img)"
    and "i < length images"
  shows "attribute_string (out ! (first_derived cfg caller (length images) + i)) ''DataRole''
           = Some (MetaStr ''Image'')
       \<and> attribute_string (out ! (first_derived cfg caller (length images) + i))
           ''ImageProcessingHistory'' = Some (MetaList [''PYTHON'', ''AFIB1''])
       \<and> attribute_string (out ! (first_derived cfg caller (length images) + i))
           ''Keep_image_geometry'' = Some (MetaInt 1)
       \<and> attribute_string (out ! (first_derived cfg caller (length images) + i))
           ''WindowCenter'' = Some (MetaStr ''2048.0'')
       \<and> attribute_string (out ! (first_derived cfg caller (length images) + i))
           ''WindowWidth'' = Some (MetaStr ''4096'')"
  using derived_nth [OF assms] by (auto simp: derived_meta_fixed derived_image_sel)

theorem process_image_meta_witness:
  "\<exists>out grp w'.
     process_image test_env ''process'' default_config example_mrd_header [example_image]
       example_world = (Inr (out, grp), w')
     \<and> attribute_string (out ! 0) ''DataRole'' = Some (MetaStr ''Image'')
     \<and> attribute_string (out ! 0) ''ImageProcessingHistory'' = Some (MetaList [''PYTHON'', ''AFIB1''])
     \<and> attribute_string (out ! 0) ''Keep_image_geometry'' = Some (MetaInt 1)
     \<and> attribute_string (out ! 0) ''WindowCenter'' = Some (MetaStr ''2048.0'')
     \<and> attribute_string (out ! 0) ''WindowWidth'' = Some (MetaStr ''4096'')"
proof -
  from example_returns obtain out grp w' where
    res: "process_image test_env ''process'' default_config example_mrd_header [example_image]
       example_world = (Inr (out, grp), w')"
    by blast
  from process_image_meta [OF res _ example_well_formed, of 0] res show ?thesis
    by (simp add: default_config_def first_derived_def)
qed

end
